theory Spec2Isabelle
  imports Complex_Main
begin

section \<open>City-AQI: the data-fetch and shaping module \<open>src/services/aqi.ts\<close>\<close>

text \<open>
  The module exports \<open>getAqiCategory\<close> and \<open>fetchEnvironmentalData\<close>. The second
  performs one HTTP request against the WAQI feed, reads the clock, calls
  \<open>Math.random()\<close> repeatedly and builds the view model shown by the dashboard.

  Modelling decisions.
  \<^item> The parsed body of the response is an arbitrary JSON value: the source reads it
    untyped (\<open>any\<close>) and validates nothing but the status. Values copied out of it into
    the view model are therefore JavaScript values, not numbers.
  \<^item> A JavaScript number is a double: a finite value, an infinity or \<open>NaN\<close>. The sign of
    zero is left out. Every arithmetic operation computes the exact result and rounds it
    to a double; the rounding function is a parameter (\<open>to_double\<close> of the record
    \<open>engine\<close>), as are the conversions between strings and numbers. What the proofs need
    of the rounding is stated in \<open>ieee_double\<close>.
  \<^item> A thrown exception or a rejected promise is \<open>Inl\<close> of a sum; the resolved value
    is \<open>Inr\<close>.
  \<^item> Everything a run reads from outside is a field of the record \<open>world\<close>: the API key,
    \<open>fetch\<close>, the clock in the host's time zone, the locale's month names and the
    successive results of \<open>Math.random()\<close>. The number of draws made so far is threaded
    through the construction of the view model in the order in which the object literal
    of the source evaluates its properties.
  \<^item> \<open>console.error\<close> only writes to the console and is left out.
\<close>

subsection \<open>JavaScript values\<close>

datatype number = Fin real | PosInf | NegInf | NaN

datatype jsval =
    JUndefined
  | JNull
  | JBool bool
  | JNum number
  | JStr string
  | JArr "jsval list"
  | JObj "(string \<times> jsval) list"

datatype js_error = Error string | TypeError string | SyntaxError string

text \<open>The built-ins of the engine that are not written out here: rounding of an exact
  result to a double, \<open>Number::toString\<close>, the conversion of a string to a number, and
  \<open>encodeURIComponent\<close>.\<close>

record engine =
  to_double :: "real \<Rightarrow> number"
  Number_toString :: "number \<Rightarrow> string"
  StringToNumber :: "string \<Rightarrow> number"
  encodeURIComponent :: "string \<Rightarrow> string"

text \<open>\<open>x <= y\<close> and \<open>x < y\<close> on numbers: false as soon as one side is \<open>NaN\<close>.\<close>

fun num_le :: "number \<Rightarrow> number \<Rightarrow> bool" where
  "num_le NaN y = False"
| "num_le x NaN = False"
| "num_le NegInf y = True"
| "num_le x PosInf = True"
| "num_le (Fin x) (Fin y) = (x \<le> y)"
| "num_le x y = False"

fun num_lt :: "number \<Rightarrow> number \<Rightarrow> bool" where
  "num_lt NaN y = False"
| "num_lt x NaN = False"
| "num_lt (Fin x) (Fin y) = (x < y)"
| "num_lt NegInf NegInf = False"
| "num_lt PosInf PosInf = False"
| "num_lt NegInf y = True"
| "num_lt x PosInf = True"
| "num_lt x y = False"

fun num_neg :: "number \<Rightarrow> number" where
  "num_neg (Fin x) = Fin (- x)"
| "num_neg PosInf = NegInf"
| "num_neg NegInf = PosInf"
| "num_neg NaN = NaN"

fun js_add :: "engine \<Rightarrow> number \<Rightarrow> number \<Rightarrow> number" where
  "js_add js (Fin x) (Fin y) = to_double js (x + y)"
| "js_add js NaN y = NaN"
| "js_add js x NaN = NaN"
| "js_add js PosInf NegInf = NaN"
| "js_add js NegInf PosInf = NaN"
| "js_add js PosInf y = PosInf"
| "js_add js NegInf y = NegInf"
| "js_add js x PosInf = PosInf"
| "js_add js x NegInf = NegInf"

definition js_sub :: "engine \<Rightarrow> number \<Rightarrow> number \<Rightarrow> number" where
  "js_sub js x y = js_add js x (num_neg y)"

definition inf_of_sign :: "bool \<Rightarrow> number" where
  "inf_of_sign positive = (if positive then PosInf else NegInf)"

fun js_mul :: "engine \<Rightarrow> number \<Rightarrow> number \<Rightarrow> number" where
  "js_mul js (Fin x) (Fin y) = to_double js (x * y)"
| "js_mul js NaN y = NaN"
| "js_mul js x NaN = NaN"
| "js_mul js PosInf (Fin y) = (if y = 0 then NaN else inf_of_sign (0 < y))"
| "js_mul js NegInf (Fin y) = (if y = 0 then NaN else inf_of_sign (y < 0))"
| "js_mul js (Fin x) PosInf = (if x = 0 then NaN else inf_of_sign (0 < x))"
| "js_mul js (Fin x) NegInf = (if x = 0 then NaN else inf_of_sign (x < 0))"
| "js_mul js PosInf PosInf = PosInf"
| "js_mul js NegInf NegInf = PosInf"
| "js_mul js PosInf NegInf = NegInf"
| "js_mul js NegInf PosInf = NegInf"

text \<open>\<open>Math.max\<close> of two numbers and \<open>Math.round\<close> (to the nearest integer, halves
  upwards; the result is exact).\<close>

definition Math_max :: "number \<Rightarrow> number \<Rightarrow> number" where
  "Math_max x y = (if x = NaN \<or> y = NaN then NaN else if num_le x y then y else x)"

fun Math_round :: "number \<Rightarrow> number" where
  "Math_round (Fin x) = Fin (of_int \<lfloor>x + 1 / 2\<rfloor>)"
| "Math_round n = n"

text \<open>Truthiness: \<open>undefined\<close>, \<open>null\<close>, \<open>false\<close>, \<open>0\<close>, \<open>NaN\<close> and the empty
  string are falsy.\<close>

fun truthy :: "jsval \<Rightarrow> bool" where
  "truthy JUndefined = False"
| "truthy JNull = False"
| "truthy (JBool b) = b"
| "truthy (JNum (Fin x)) = (x \<noteq> 0)"
| "truthy (JNum NaN) = False"
| "truthy (JNum n) = True"
| "truthy (JStr s) = (s \<noteq> [])"
| "truthy (JArr xs) = True"
| "truthy (JObj kvs) = True"

text \<open>\<open>a || b\<close>: \<open>b\<close> is evaluated only when \<open>a\<close> is falsy. \<open>js_or\<close> is the operator
  with a constant on the right, \<open>or_else\<close> the one whose right operand draws random
  numbers.\<close>

definition js_or :: "jsval \<Rightarrow> jsval \<Rightarrow> jsval" where
  "js_or a b = (if truthy a then a else b)"

definition or_else :: "jsval \<Rightarrow> (nat \<Rightarrow> jsval \<times> nat) \<Rightarrow> nat \<Rightarrow> jsval \<times> nat" where
  "or_else a b n = (if truthy a then (a, n) else b n)"

text \<open>Reading a property. \<open>JSON.parse\<close> keeps the last of several equal keys. None of
  the property names this module reads exists on the prototype of an array, a string, a
  number or a boolean, so there the result is \<open>undefined\<close>. On \<open>undefined\<close> and \<open>null\<close>
  the plain access \<open>x.p\<close> throws and the optional access \<open>x?.p\<close> gives \<open>undefined\<close>.\<close>

fun js_member :: "jsval \<Rightarrow> string \<Rightarrow> jsval" where
  "js_member (JObj kvs) p = (case map_of (rev kvs) p of None \<Rightarrow> JUndefined | Some v \<Rightarrow> v)"
| "js_member x p = JUndefined"

definition nullish :: "jsval \<Rightarrow> bool" where
  "nullish x \<longleftrightarrow> x = JUndefined \<or> x = JNull"

definition get_prop :: "jsval \<Rightarrow> string \<Rightarrow> js_error + jsval" where
  "get_prop x p =
     (if nullish x then Inl (TypeError (''Cannot read properties of undefined or null: '' @ p))
      else Inr (js_member x p))"

definition optional :: "jsval \<Rightarrow> string \<Rightarrow> jsval" where
  "optional x p = (if nullish x then JUndefined else js_member x p)"

text \<open>Conversions. An array converts to the strings of its elements joined by commas
  (\<open>undefined\<close> and \<open>null\<close> give the empty string), any other object parsed from JSON
  to \<open>[object Object]\<close>.\<close>

fun join :: "string list \<Rightarrow> string" where
  "join [] = []"
| "join [s] = s"
| "join (s # t # ss) = s @ '','' @ join (t # ss)"

fun ToString :: "engine \<Rightarrow> jsval \<Rightarrow> string" where
  "ToString js JUndefined = ''undefined''"
| "ToString js JNull = ''null''"
| "ToString js (JBool b) = (if b then ''true'' else ''false'')"
| "ToString js (JNum n) = Number_toString js n"
| "ToString js (JStr s) = s"
| "ToString js (JArr xs) =
     join (map (\<lambda>x. if nullish x then [] else ToString js x) xs)"
| "ToString js (JObj kvs) = ''[object Object]''"

fun ToPrimitive :: "engine \<Rightarrow> jsval \<Rightarrow> jsval" where
  "ToPrimitive js (JArr xs) = JStr (ToString js (JArr xs))"
| "ToPrimitive js (JObj kvs) = JStr (ToString js (JObj kvs))"
| "ToPrimitive js x = x"

fun ToNumber_primitive :: "engine \<Rightarrow> jsval \<Rightarrow> number" where
  "ToNumber_primitive js JUndefined = NaN"
| "ToNumber_primitive js JNull = Fin 0"
| "ToNumber_primitive js (JBool b) = Fin (if b then 1 else 0)"
| "ToNumber_primitive js (JNum n) = n"
| "ToNumber_primitive js (JStr s) = StringToNumber js s"
| "ToNumber_primitive js x = NaN"

definition ToNumber :: "engine \<Rightarrow> jsval \<Rightarrow> number" where
  "ToNumber js x = ToNumber_primitive js (ToPrimitive js x)"

text \<open>\<open>a + n\<close> with a number on the right: concatenation when \<open>a\<close> converts to a string,
  addition otherwise. \<open>a * n\<close> and \<open>a <= c\<close> with a number on the right convert \<open>a\<close> to a
  number.\<close>

definition js_plus :: "engine \<Rightarrow> jsval \<Rightarrow> number \<Rightarrow> jsval" where
  "js_plus js a n =
     (case ToPrimitive js a of
        JStr s \<Rightarrow> JStr (s @ Number_toString js n)
      | p \<Rightarrow> JNum (js_add js (ToNumber_primitive js p) n))"

definition js_times :: "engine \<Rightarrow> jsval \<Rightarrow> number \<Rightarrow> number" where
  "js_times js a n = js_mul js (ToNumber js a) n"

definition js_le :: "engine \<Rightarrow> jsval \<Rightarrow> real \<Rightarrow> bool" where
  "js_le js a c = num_le (ToNumber js a) (Fin c)"

text \<open>\<open>n.toString()\<close> of a natural number and \<open>padStart\<close> with a one-character
  filler.\<close>

definition digit_char :: "nat \<Rightarrow> char" where
  "digit_char d = char_of (48 + d)"

fun toString_nat :: "nat \<Rightarrow> string" where
  "toString_nat n =
     (if n < 10 then [digit_char n] else toString_nat (n div 10) @ [digit_char (n mod 10)])"

declare toString_nat.simps [simp del]

definition padStart :: "nat \<Rightarrow> char \<Rightarrow> string \<Rightarrow> string" where
  "padStart targetLength c s = replicate (targetLength - length s) c @ s"

text \<open>\<open>Array.from({ length: len }, (_, i) => ...)\<close> calls the function for
  \<open>i = 0, ..., len - 1\<close> in this order.\<close>

primrec array_from_loop ::
  "(nat \<Rightarrow> nat \<Rightarrow> 'a \<times> nat) \<Rightarrow> nat \<Rightarrow> nat \<Rightarrow> nat \<Rightarrow> 'a list \<times> nat" where
  "array_from_loop f i 0 n = ([], n)"
| "array_from_loop f i (Suc k) n =
     (let (x, n') = f i n;
          (xs, n'') = array_from_loop f (Suc i) k n'
      in (x # xs, n''))"

definition Array_from :: "nat \<Rightarrow> (nat \<Rightarrow> nat \<Rightarrow> 'a \<times> nat) \<Rightarrow> nat \<Rightarrow> 'a list \<times> nat" where
  "Array_from len f n = array_from_loop f 0 len n"

text \<open>\<open>try { ... } catch (error) { ... }\<close>: the handler runs on what the block throws.\<close>

definition try_catch :: "js_error + 'a \<Rightarrow> (js_error \<Rightarrow> js_error + 'a) \<Rightarrow> js_error + 'a" where
  "try_catch block handler = (case block of Inl e \<Rightarrow> handler e | Inr x \<Rightarrow> Inr x)"

subsection \<open>The world of a run\<close>

text \<open>A \<open>Response\<close>: its \<open>ok\<close> flag and what \<open>response.json()\<close> settles to: the parsed
  body, or a rejection when the body is not JSON.\<close>

record response =
  ok :: bool
  json :: "js_error + jsval"

datatype fetch_outcome = Rejects js_error | Resolves response

text \<open>\<open>now_toISOString\<close> is \<open>now.toISOString()\<close>. \<open>hours_back i\<close> is what
  \<open>hour.getHours()\<close> returns after \<open>hour.setHours(hour.getHours() - i)\<close> on a copy of
  \<open>now\<close>, in the time zone of the host. \<open>month_short i\<close> is
  \<open>new Date(2024, i, 1).toLocaleString('default', { month: 'short' })\<close>.
  \<open>Math_random k\<close> is the result of the call of \<open>Math.random()\<close> that \<open>k\<close> calls
  precede.\<close>

record world =
  WAQI_API_KEY :: string
  fetch :: "string \<Rightarrow> fetch_outcome"
  now_toISOString :: string
  hours_back :: "nat \<Rightarrow> nat"
  month_short :: "nat \<Rightarrow> string"
  Math_random :: "nat \<Rightarrow> real"

subsection \<open>The view model\<close>

datatype trend = improving | stable | worsening

record AQIPrediction =
  predictedAQI :: jsval
  confidence :: number
  trend :: trend

record pollutants =
  pm25 :: jsval
  no2 :: jsval
  so2 :: jsval
  o3 :: jsval

record current_aqi =
  aqi_value :: jsval
  category :: string
  pollutants :: pollutants
  prediction :: "AQIPrediction option"

record current_snapshot =
  timestamp :: string
  temperature :: jsval
  humidity :: jsval
  co2 :: jsval
  current_aqi :: current_aqi

record hourly_aqi =
  hourly_value :: number
  hourly_pollutants :: "pollutants option"

record hourly_sample =
  hour :: string
  hourly_temperature :: jsval
  hourly_humidity :: jsval
  hourly_co2 :: jsval
  hourly_aqi :: hourly_aqi

text \<open>The entries of the four time-range series and of the location list are objects
  of two properties, a label (\<open>hour\<close>, \<open>week\<close>, \<open>month\<close>, \<open>year\<close>, \<open>location\<close>) and
  \<open>averageAqi\<close>.\<close>

record average_entry =
  label :: string
  averageAqi :: number

record timeRangeAverages =
  daily :: "average_entry list"
  weekly :: "average_entry list"
  monthly :: "average_entry list"
  yearly :: "average_entry list"

record EnvironmentalData =
  current :: current_snapshot
  hourly :: "hourly_sample list"
  timeRangeAverages :: timeRangeAverages
  locationAverages :: "average_entry list"

subsection \<open>\<open>getAqiCategory\<close>\<close>

text \<open>The parameter is declared a \<open>number\<close>; the one caller passes \<open>waqiData.aqi\<close> as it
  came. Each comparison converts the argument to a number. The last \<open>return\<close> is reached
  whenever every comparison is false.\<close>

definition getAqiCategory :: "engine \<Rightarrow> jsval \<Rightarrow> string" where
  "getAqiCategory js a =
     (if js_le js a 50 then ''Good''
      else if js_le js a 100 then ''Moderate''
      else if js_le js a 150 then ''Unhealthy for Sensitive Groups''
      else if js_le js a 200 then ''Unhealthy''
      else if js_le js a 300 then ''Very Unhealthy''
      else ''Hazardous'')"

subsection \<open>\<open>fetchWaqiData\<close>\<close>

definition WAQI_API_BASE_URL :: string where
  "WAQI_API_BASE_URL = ''https://api.waqi.info/feed''"

definition request_url :: "engine \<Rightarrow> world \<Rightarrow> string \<Rightarrow> string" where
  "request_url js w city =
     WAQI_API_BASE_URL @ ''/'' @ encodeURIComponent js city @ ''/?token='' @ WAQI_API_KEY w"

text \<open>\<open>new Error(data.data || 'Failed to fetch WAQI data')\<close>: the message is the
  string of \<open>data.data\<close> when that is truthy.\<close>

definition error_message :: "engine \<Rightarrow> jsval \<Rightarrow> string" where
  "error_message js data =
     (if truthy (js_member data ''data'') then ToString js (js_member data ''data'')
      else ''Failed to fetch WAQI data'')"

definition fetchWaqiData :: "engine \<Rightarrow> world \<Rightarrow> string \<Rightarrow> js_error + jsval" where
  "fetchWaqiData js w city =
     try_catch
       (case fetch w (request_url js w city) of
          Rejects e \<Rightarrow> Inl e
        | Resolves response \<Rightarrow>
            if \<not> ok response then Inl (Error ''Failed to fetch WAQI data'')
            else (case json response of
                    Inl e \<Rightarrow> Inl e
                  | Inr data \<Rightarrow>
                      (case get_prop data ''status'' of
                         Inl e \<Rightarrow> Inl e
                       | Inr st \<Rightarrow>
                           if st \<noteq> JStr ''ok'' then Inl (Error (error_message js data))
                           else Inr data)))
       (\<lambda>error. Inl error)"

subsection \<open>\<open>fetchEnvironmentalData\<close>\<close>

text \<open>\<open>waqiData.iaqi?.x?.v\<close>, read where \<open>waqiData\<close> is neither \<open>undefined\<close> nor
  \<open>null\<close>.\<close>

definition iaqi_v :: "string \<Rightarrow> jsval \<Rightarrow> jsval" where
  "iaqi_v x waqiData = optional (optional (js_member waqiData ''iaqi'') x) ''v''"

text \<open>\<open>Math.random() * scale - shift\<close> with the draw \<open>r\<close>.\<close>

definition random_offset :: "engine \<Rightarrow> real \<Rightarrow> real \<Rightarrow> real \<Rightarrow> number" where
  "random_offset js r scale shift = js_sub js (js_mul js (Fin r) (Fin scale)) (Fin shift)"

text \<open>\<open>generateVariation\<close> makes one draw.\<close>

definition generateVariation :: "engine \<Rightarrow> world \<Rightarrow> jsval \<Rightarrow> nat \<Rightarrow> number \<times> nat" where
  "generateVariation js w baseValue n =
     (Math_max (Fin 0)
        (ToNumber js (js_plus js baseValue (random_offset js (Math_random w n) 40 20))),
      Suc n)"

text \<open>The right operands of \<open>||\<close> in the hourly samples: \<open>25 + (Math.random() * 5 - 2.5)\<close>
  and its siblings. The pollutants object of an hourly sample has no property \<open>pm25\<close>;
  reading it gives \<open>undefined\<close>.\<close>

definition default_plus_offset ::
  "engine \<Rightarrow> world \<Rightarrow> real \<Rightarrow> real \<Rightarrow> real \<Rightarrow> nat \<Rightarrow> jsval \<times> nat" where
  "default_plus_offset js w dflt scale shift n =
     (JNum (js_add js (Fin dflt) (random_offset js (Math_random w n) scale shift)), Suc n)"

definition hourly_entry ::
  "engine \<Rightarrow> world \<Rightarrow> jsval \<Rightarrow> nat \<Rightarrow> nat \<Rightarrow> hourly_sample \<times> nat" where
  "hourly_entry js w waqiData i n0 =
     (let (t, n1) = or_else (iaqi_v ''t'' waqiData) (default_plus_offset js w 25 5 (5 / 2)) n0;
          (h, n2) = or_else (iaqi_v ''h'' waqiData) (default_plus_offset js w 60 10 5) n1;
          (c, n3) = or_else (iaqi_v ''co'' waqiData) (default_plus_offset js w 400 100 50) n2;
          (a, n4) = generateVariation js w (js_member waqiData ''aqi'') n3
      in (\<lparr>hour = padStart 2 CHR ''0'' (toString_nat (hours_back w i)) @ '':00'',
           hourly_temperature = t,
           hourly_humidity = h,
           hourly_co2 = c,
           hourly_aqi = \<lparr>hourly_value = a,
                         hourly_pollutants = Some \<lparr>pm25 = JUndefined,
                                                   no2 = iaqi_v ''no2'' waqiData,
                                                   so2 = iaqi_v ''so2'' waqiData,
                                                   o3 = iaqi_v ''o3'' waqiData\<rparr>\<rparr>\<rparr>, n4))"

definition average_entry_of ::
  "engine \<Rightarrow> world \<Rightarrow> jsval \<Rightarrow> (nat \<Rightarrow> string) \<Rightarrow> nat \<Rightarrow> nat \<Rightarrow> average_entry \<times> nat" where
  "average_entry_of js w currentAqi lbl i n =
     (let (a, n') = generateVariation js w currentAqi n
      in (\<lparr>label = lbl i, averageAqi = a\<rparr>, n'))"

text \<open>\<open>Math.round(currentAqi * c)\<close> for a literal \<open>c\<close> such as \<open>1.2\<close>, which denotes the
  double nearest to it.\<close>

definition location_average :: "engine \<Rightarrow> jsval \<Rightarrow> real \<Rightarrow> number" where
  "location_average js currentAqi c = Math_round (js_times js currentAqi (to_double js c))"

definition processedData :: "engine \<Rightarrow> world \<Rightarrow> jsval \<Rightarrow> EnvironmentalData" where
  "processedData js w waqiData =
     (let currentAqi = js_member waqiData ''aqi'';
          predicted = js_plus js currentAqi (random_offset js (Math_random w 0) 20 10);
          tr = (if Math_random w 1 > 1 / 2 then improving else worsening);
          (hs, n1) = Array_from 24 (hourly_entry js w waqiData) 2;
          (ds, n2) = Array_from 24 (average_entry_of js w currentAqi
                        (\<lambda>i. padStart 2 CHR ''0'' (toString_nat i) @ '':00'')) n1;
          (ws, n3) = Array_from 4 (average_entry_of js w currentAqi
                        (\<lambda>i. ''Week '' @ toString_nat (i + 1))) n2;
          (ms, n4) = Array_from 12 (average_entry_of js w currentAqi (month_short w)) n3;
          (ys, n5) = Array_from 5 (average_entry_of js w currentAqi
                        (\<lambda>i. toString_nat (2020 + i))) n4
      in \<lparr>current =
            \<lparr>timestamp = now_toISOString w,
             temperature = js_or (iaqi_v ''t'' waqiData) (JNum (Fin 25)),
             humidity = js_or (iaqi_v ''h'' waqiData) (JNum (Fin 60)),
             co2 = js_or (iaqi_v ''co'' waqiData) (JNum (Fin 400)),
             current_aqi =
               \<lparr>aqi_value = currentAqi,
                category = getAqiCategory js currentAqi,
                pollutants = \<lparr>pm25 = iaqi_v ''pm25'' waqiData,
                               no2 = iaqi_v ''no2'' waqiData,
                               so2 = iaqi_v ''so2'' waqiData,
                               o3 = iaqi_v ''o3'' waqiData\<rparr>,
                prediction = Some \<lparr>predictedAQI = predicted,
                                     confidence = to_double js (85 / 100),
                                     trend = tr\<rparr>\<rparr>\<rparr>,
          hourly = hs,
          timeRangeAverages = \<lparr>daily = ds, weekly = ws, monthly = ms, yearly = ys\<rparr>,
          locationAverages =
            [\<lparr>label = ''downtown'', averageAqi = location_average js currentAqi (12 / 10)\<rparr>,
             \<lparr>label = ''suburbs'', averageAqi = location_average js currentAqi (8 / 10)\<rparr>,
             \<lparr>label = ''industrial'', averageAqi = location_average js currentAqi (14 / 10)\<rparr>,
             \<lparr>label = ''residential'', averageAqi = location_average js currentAqi (9 / 10)\<rparr>,
             \<lparr>label = ''parks'', averageAqi = location_average js currentAqi (7 / 10)\<rparr>]\<rparr>)"

text \<open>The parameter \<open>city\<close> has the default \<open>'mumbai'\<close>, used when the caller passes
  nothing.\<close>

definition city_or_default :: "string option \<Rightarrow> string" where
  "city_or_default city_arg = (case city_arg of None \<Rightarrow> ''mumbai'' | Some city \<Rightarrow> city)"

text \<open>\<open>waqiData.aqi\<close> is the first property read from \<open>waqiResponse.data\<close>; it throws
  when that is \<open>undefined\<close> or \<open>null\<close>. Nothing after it throws.\<close>

definition fetchEnvironmentalData ::
  "engine \<Rightarrow> world \<Rightarrow> string option \<Rightarrow> js_error + EnvironmentalData" where
  "fetchEnvironmentalData js w city_arg =
     try_catch
       (case fetchWaqiData js w (city_or_default city_arg) of
          Inl e \<Rightarrow> Inl e
        | Inr waqiResponse \<Rightarrow>
            (let waqiData = js_member waqiResponse ''data''
             in case get_prop waqiData ''aqi'' of
                  Inl e \<Rightarrow> Inl e
                | Inr currentAqi \<Rightarrow> Inr (processedData js w waqiData)))
       (\<lambda>error. Inl error)"

subsection \<open>What a run reads from upstream, and what it generates\<close>

text \<open>The outcome of the one request a run makes, and the \<open>data\<close> property of the
  body it carries, if the body parses.\<close>

definition upstream :: "engine \<Rightarrow> world \<Rightarrow> string option \<Rightarrow> fetch_outcome" where
  "upstream js w city_arg = fetch w (request_url js w (city_or_default city_arg))"

definition upstream_feed :: "engine \<Rightarrow> world \<Rightarrow> string option \<Rightarrow> jsval option" where
  "upstream_feed js w city_arg =
     (case upstream js w city_arg of
        Rejects e \<Rightarrow> None
      | Resolves r \<Rightarrow>
          (case json r of Inl e \<Rightarrow> None | Inr b \<Rightarrow> Some (js_member b ''data'')))"

text \<open>The numbers of a view model that \<open>generateVariation\<close> produced: the hourly AQI
  values and the averages of the four time-range series.\<close>

definition synthetic_values :: "EnvironmentalData \<Rightarrow> number list" where
  "synthetic_values vm =
     map (\<lambda>s. hourly_value (hourly_aqi s)) (hourly vm)
     @ map averageAqi (daily (timeRangeAverages vm))
     @ map averageAqi (weekly (timeRangeAverages vm))
     @ map averageAqi (monthly (timeRangeAverages vm))
     @ map averageAqi (yearly (timeRangeAverages vm))"

text \<open>The calls of \<open>Math.random()\<close> that \<open>generateVariation\<close> makes, by their position
  among all calls of a run. Two calls come first (prediction and trend). Each hourly
  sample then makes one call for each of the readings \<open>t\<close>, \<open>h\<close>, \<open>co\<close> that is falsy
  and after them the call of \<open>generateVariation\<close>; the calls for the daily, weekly,
  monthly and yearly series follow.\<close>

definition falsy_readings :: "jsval \<Rightarrow> nat" where
  "falsy_readings waqiData =
     length (filter (\<lambda>x. \<not> truthy (iaqi_v x waqiData)) [''t'', ''h'', ''co''])"

definition variation_draws :: "jsval \<Rightarrow> nat list" where
  "variation_draws waqiData =
     (let m = falsy_readings waqiData; first = 2 + 24 * (m + 1)
      in map (\<lambda>i. 2 + i * (m + 1) + m) [0..<24]
         @ map (\<lambda>j. first + j) [0..<24]
         @ map (\<lambda>j. first + 24 + j) [0..<4]
         @ map (\<lambda>j. first + 28 + j) [0..<12]
         @ map (\<lambda>j. first + 40 + j) [0..<5])"

text \<open>\<open>Math.random()\<close> returns a number in \<open>[0, 1)\<close>.\<close>

definition random_in_range :: "world \<Rightarrow> bool" where
  "random_in_range w \<longleftrightarrow> (\<forall>k. 0 \<le> Math_random w k \<and> Math_random w k < 1)"

text \<open>Rounding to a double is monotone and leaves the integers up to \<open>2^53\<close> as they
  are.\<close>

definition ieee_double :: "engine \<Rightarrow> bool" where
  "ieee_double js \<longleftrightarrow>
     (\<forall>x y. x \<le> y \<longrightarrow> num_le (to_double js x) (to_double js y)) \<and>
     (\<forall>k::int. \<bar>k\<bar> \<le> 2 ^ 53 \<longrightarrow> to_double js (of_int k) = Fin (of_int k))"

text \<open>Two runs read the same clock in the same time zone, the same month names and draw
  the same random numbers.\<close>

definition same_clock_and_draws :: "world \<Rightarrow> world \<Rightarrow> bool" where
  "same_clock_and_draws w1 w2 \<longleftrightarrow>
     now_toISOString w1 = now_toISOString w2 \<and> hours_back w1 = hours_back w2 \<and>
     month_short w1 = month_short w2 \<and> Math_random w1 = Math_random w2"

subsection \<open>Example runs\<close>

text \<open>An engine for the examples. Its arithmetic is exact. The inputs of the examples
  are chosen so that doubles give the same results: the sums, differences and products
  are of integers and halves of small size, which doubles compute exactly, and the
  products with the literals 1.2, 0.8, 1.4, 0.9 and 0.7 are taken of the readings 50 and
  100, where the double product is within \<open>2e-14\<close> of an integer and \<open>Math.round\<close>
  returns that integer. Its conversions between strings and numbers are those of
  JavaScript on integers written in decimal; the examples convert nothing else.
  \<open>encodeURIComponent\<close> leaves the city names of the examples, which are lower-case
  letters, as they are.\<close>

fun digits_value :: "nat \<Rightarrow> string \<Rightarrow> nat option" where
  "digits_value acc [] = Some acc"
| "digits_value acc (c # cs) =
     (if 48 \<le> (of_char c :: nat) \<and> (of_char c :: nat) \<le> 57
      then digits_value (10 * acc + (of_char c - 48)) cs else None)"

definition example_StringToNumber :: "string \<Rightarrow> number" where
  "example_StringToNumber s =
     (case s of
        [] \<Rightarrow> Fin 0
      | c # cs \<Rightarrow>
          if c = CHR ''-'' then
            (case cs of
               [] \<Rightarrow> NaN
             | d # ds \<Rightarrow> (case digits_value 0 cs of None \<Rightarrow> NaN | Some n \<Rightarrow> Fin (- real n)))
          else (case digits_value 0 s of None \<Rightarrow> NaN | Some n \<Rightarrow> Fin (real n)))"

definition example_Number_toString :: "number \<Rightarrow> string" where
  "example_Number_toString n =
     (case n of
        NaN \<Rightarrow> ''NaN''
      | PosInf \<Rightarrow> ''Infinity''
      | NegInf \<Rightarrow> ''-Infinity''
      | Fin x \<Rightarrow> (if x < 0 then ''-'' else []) @ toString_nat (nat \<lfloor>\<bar>x\<bar>\<rfloor>))"

definition example_engine :: engine where
  "example_engine =
     \<lparr>to_double = Fin,
      Number_toString = example_Number_toString,
      StringToNumber = example_StringToNumber,
      encodeURIComponent = (\<lambda>s. s)\<rparr>"

definition english_month :: "nat \<Rightarrow> string" where
  "english_month i =
     (if i < 12
      then [''Jan'', ''Feb'', ''Mar'', ''Apr'', ''May'', ''Jun'',
            ''Jul'', ''Aug'', ''Sep'', ''Oct'', ''Nov'', ''Dec''] ! i
      else [])"

text \<open>A feed object with the given \<open>aqi\<close> and temperature reading. The humidity reading
  is missing, the carbon monoxide reading is zero, and the object has properties the
  module does not read.\<close>

definition example_feed :: "jsval \<Rightarrow> jsval \<Rightarrow> jsval" where
  "example_feed a t =
     JObj [(''aqi'', a),
           (''idx'', JNum (Fin 12454)),
           (''dominentpol'', JStr ''pm25''),
           (''iaqi'', JObj [(''t'', JObj [(''v'', t)]),
                            (''co'', JObj [(''v'', JNum (Fin 0))]),
                            (''pm25'', JObj [(''v'', JNum (Fin 50))]),
                            (''pm10'', JObj [(''v'', JNum (Fin 38))]),
                            (''no2'', JObj [(''v'', JNum (Fin 7))]),
                            (''so2'', JObj [])])]"

text \<open>Another feed object with the same \<open>aqi\<close> and the same readings \<open>t\<close>, \<open>h\<close>, \<open>co\<close>,
  \<open>pm25\<close>, \<open>no2\<close>, \<open>so2\<close>, \<open>o3\<close>, and with other properties around them.\<close>

definition example_feed_variant :: "jsval \<Rightarrow> jsval \<Rightarrow> jsval" where
  "example_feed_variant a t =
     JObj [(''city'', JObj [(''name'', JStr ''Mumbai'')]),
           (''iaqi'', JObj [(''w'', JObj [(''v'', JNum (Fin 3))]),
                            (''no2'', JObj [(''v'', JNum (Fin 7))]),
                            (''pm25'', JObj [(''v'', JNum (Fin 50))]),
                            (''co'', JObj [(''v'', JNum (Fin 0))]),
                            (''t'', JObj [(''v'', t), (''unit'', JStr ''C'')])]),
           (''aqi'', a)]"

definition ok_body :: "jsval \<Rightarrow> jsval" where
  "ok_body d = JObj [(''status'', JStr ''ok''), (''data'', d)]"

definition ok_response :: "jsval \<Rightarrow> fetch_outcome" where
  "ok_response d = Resolves \<lparr>ok = True, json = Inr (ok_body d)\<rparr>"

text \<open>A world in which every request has the given outcome, every call of
  \<open>Math.random()\<close> returns \<open>r\<close>, and the clock stands at 09:30 UTC on a host in UTC.\<close>

definition example_world :: "real \<Rightarrow> fetch_outcome \<Rightarrow> world" where
  "example_world r out =
     \<lparr>WAQI_API_KEY = ''demo'',
      fetch = (\<lambda>url. out),
      now_toISOString = ''2024-03-01T09:30:00.000Z'',
      hours_back = (\<lambda>i. nat ((9 - int i) mod 24)),
      month_short = english_month,
      Math_random = (\<lambda>k. r)\<rparr>"

section \<open>Properties\<close>

subsection \<open>Auxiliary facts\<close>

lemma array_from_loop_length: "length (fst (array_from_loop f i k n)) = k"
  by (induction k arbitrary: i n) (simp_all add: Let_def case_prod_beta)

lemma Array_from_length: "length (fst (Array_from len f n)) = len"
  by (simp add: Array_from_def array_from_loop_length)

lemma array_from_loop_all:
  "(\<And>j m. P (fst (f j m))) \<Longrightarrow> \<forall>x\<in>set (fst (array_from_loop f i k n)). P x"
proof (induction k arbitrary: i n)
  case 0
  then show ?case by simp
next
  case (Suc k)
  obtain x n' where fx: "f i n = (x, n')" by (cases "f i n")
  have "P x" using Suc.prems [of i n] fx by simp
  moreover have "\<forall>y\<in>set (fst (array_from_loop f (Suc i) k n')). P y"
    using Suc.IH Suc.prems by blast
  ultimately show ?case using fx by (auto simp: Let_def split: prod.splits)
qed

lemma Array_from_all:
  "(\<And>j m. P (fst (f j m))) \<Longrightarrow> \<forall>x\<in>set (fst (Array_from len f n)). P x"
  unfolding Array_from_def by (rule array_from_loop_all)

lemma array_from_loop_steps:
  assumes "\<And>i n. snd (f i n) = n + c"
  shows "array_from_loop f i k n
           = (map (\<lambda>j. fst (f (i + j) (n + j * c))) [0..<k], n + k * c)"
proof (induction k arbitrary: i n)
  case 0
  then show ?case by simp
next
  case (Suc k)
  have step: "f i n = (fst (f i n), n + c)"
    using assms [of i n] by (metis prod.collapse)
  have "array_from_loop f i (Suc k) n
      = (fst (f i n) # fst (array_from_loop f (Suc i) k (n + c)),
         snd (array_from_loop f (Suc i) k (n + c)))"
    by (subst array_from_loop.simps, subst step) (simp add: case_prod_beta)
  also have "\<dots> = (fst (f i n) # map (\<lambda>j. fst (f (Suc i + j) (n + c + j * c))) [0..<k],
                     n + c + k * c)"
    by (simp add: Suc.IH)
  also have "\<dots> = (map (\<lambda>j. fst (f (i + j) (n + j * c))) [0..<Suc k], n + Suc k * c)"
    by (simp only: map_upt_Suc) (simp add: add.assoc add.commute add.left_commute)
  finally show ?case .
qed

lemma Array_from_steps:
  assumes "\<And>i n. snd (f i n) = n + c"
  shows "Array_from len f n = (map (\<lambda>j. fst (f j (n + j * c))) [0..<len], n + len * c)"
  unfolding Array_from_def using array_from_loop_steps [where f = f and c = c and i = 0 and k = len and n = n, OF assms] by simp

lemma fetchWaqiData_upstream:
  "fetchWaqiData js w (city_or_default c) =
     (case upstream js w c of
        Rejects e \<Rightarrow> Inl e
      | Resolves r \<Rightarrow>
          if \<not> ok r then Inl (Error ''Failed to fetch WAQI data'')
          else (case json r of
                  Inl e \<Rightarrow> Inl e
                | Inr b \<Rightarrow>
                    if nullish b
                    then Inl (TypeError (''Cannot read properties of undefined or null: status''))
                    else if js_member b ''status'' \<noteq> JStr ''ok''
                    then Inl (Error (error_message js b))
                    else Inr b))"
  by (simp add: fetchWaqiData_def upstream_def try_catch_def get_prop_def
           split: fetch_outcome.splits sum.splits)

lemma fetchEnvironmentalData_upstream:
  "fetchEnvironmentalData js w c =
     (case upstream js w c of
        Rejects e \<Rightarrow> Inl e
      | Resolves r \<Rightarrow>
          if \<not> ok r then Inl (Error ''Failed to fetch WAQI data'')
          else (case json r of
                  Inl e \<Rightarrow> Inl e
                | Inr b \<Rightarrow>
                    if nullish b
                    then Inl (TypeError (''Cannot read properties of undefined or null: status''))
                    else if js_member b ''status'' \<noteq> JStr ''ok''
                    then Inl (Error (error_message js b))
                    else if nullish (js_member b ''data'')
                    then Inl (TypeError (''Cannot read properties of undefined or null: aqi''))
                    else Inr (processedData js w (js_member b ''data''))))"
  by (simp add: fetchEnvironmentalData_def fetchWaqiData_upstream try_catch_def get_prop_def
           Let_def split: fetch_outcome.splits sum.splits)


lemma success_feed:
  "fetchEnvironmentalData js w c = Inr vm \<Longrightarrow>
     \<exists>d. upstream_feed js w c = Some d \<and> \<not> nullish d \<and> vm = processedData js w d"
  by (auto simp: fetchEnvironmentalData_upstream upstream_feed_def
           split: fetch_outcome.splits sum.splits if_splits)

lemma example_upstream: "upstream js (example_world r out) c = out"
  by (simp add: upstream_def example_world_def)

lemma example_success:
  "fetchEnvironmentalData js (example_world r (ok_response (example_feed a t))) c
     = Inr (processedData js (example_world r (ok_response (example_feed a t)))
              (example_feed a t))"
  by (simp add: fetchEnvironmentalData_upstream example_upstream)
     (simp add: ok_response_def ok_body_def example_feed_def nullish_def)

lemma example_upstream_feed:
  "upstream_feed js (example_world r (ok_response d)) c = Some d"
  by (simp add: upstream_feed_def example_upstream) (simp add: ok_response_def ok_body_def)

lemma current_processedData:
  "current (processedData js w d) =
     \<lparr>timestamp = now_toISOString w,
      temperature = js_or (iaqi_v ''t'' d) (JNum (Fin 25)),
      humidity = js_or (iaqi_v ''h'' d) (JNum (Fin 60)),
      co2 = js_or (iaqi_v ''co'' d) (JNum (Fin 400)),
      current_aqi =
        \<lparr>aqi_value = js_member d ''aqi'',
         category = getAqiCategory js (js_member d ''aqi''),
         pollutants = \<lparr>pm25 = iaqi_v ''pm25'' d, no2 = iaqi_v ''no2'' d,
                        so2 = iaqi_v ''so2'' d, o3 = iaqi_v ''o3'' d\<rparr>,
         prediction =
           Some \<lparr>predictedAQI =
                   js_plus js (js_member d ''aqi'') (random_offset js (Math_random w 0) 20 10),
                 confidence = to_double js (85 / 100),
                 trend = (if Math_random w 1 > 1 / 2 then improving else worsening)\<rparr>\<rparr>\<rparr>"
  by (simp add: processedData_def Let_def split: prod.splits)

lemma locationAverages_processedData:
  "locationAverages (processedData js w d) =
     [\<lparr>label = ''downtown'', averageAqi = location_average js (js_member d ''aqi'') (12 / 10)\<rparr>,
      \<lparr>label = ''suburbs'', averageAqi = location_average js (js_member d ''aqi'') (8 / 10)\<rparr>,
      \<lparr>label = ''industrial'', averageAqi = location_average js (js_member d ''aqi'') (14 / 10)\<rparr>,
      \<lparr>label = ''residential'', averageAqi = location_average js (js_member d ''aqi'') (9 / 10)\<rparr>,
      \<lparr>label = ''parks'', averageAqi = location_average js (js_member d ''aqi'') (7 / 10)\<rparr>]"
  by (simp add: processedData_def Let_def split: prod.splits)

lemma or_else_snd:
  "snd (or_else a (default_plus_offset js w dflt scale shift) n)
     = n + (if truthy a then 0 else 1)"
  by (simp add: or_else_def default_plus_offset_def)

lemma hourly_entry_snd:
  "snd (hourly_entry js w d i n) = n + (falsy_readings d + 1)"
  by (simp add: hourly_entry_def Let_def case_prod_beta or_else_snd generateVariation_def
                falsy_readings_def)

lemma hourly_entry_value:
  "hourly_value (hourly_aqi (fst (hourly_entry js w d i n)))
     = fst (generateVariation js w (js_member d ''aqi'') (n + falsy_readings d))"
  by (simp add: hourly_entry_def Let_def case_prod_beta or_else_snd generateVariation_def
                falsy_readings_def)

lemma average_entry_of_snd: "snd (average_entry_of js w b lbl i n) = n + 1"
  by (simp add: average_entry_of_def Let_def case_prod_beta generateVariation_def)

lemma average_entry_of_value:
  "averageAqi (fst (average_entry_of js w b lbl i n)) = fst (generateVariation js w b n)"
  by (simp add: average_entry_of_def Let_def case_prod_beta)

lemma processedData_series:
  "hourly (processedData js w d)
     = map (\<lambda>j. fst (hourly_entry js w d j (2 + j * (falsy_readings d + 1)))) [0..<24]"
  "daily (timeRangeAverages (processedData js w d))
     = map (\<lambda>j. fst (average_entry_of js w (js_member d ''aqi'')
                       (\<lambda>i. padStart 2 CHR ''0'' (toString_nat i) @ '':00'') j
                       (2 + 24 * (falsy_readings d + 1) + j))) [0..<24]"
  "weekly (timeRangeAverages (processedData js w d))
     = map (\<lambda>j. fst (average_entry_of js w (js_member d ''aqi'')
                       (\<lambda>i. ''Week '' @ toString_nat (i + 1)) j
                       (2 + 24 * (falsy_readings d + 1) + 24 + j))) [0..<4]"
  "monthly (timeRangeAverages (processedData js w d))
     = map (\<lambda>j. fst (average_entry_of js w (js_member d ''aqi'') (month_short w) j
                       (2 + 24 * (falsy_readings d + 1) + 28 + j))) [0..<12]"
  "yearly (timeRangeAverages (processedData js w d))
     = map (\<lambda>j. fst (average_entry_of js w (js_member d ''aqi'')
                       (\<lambda>i. toString_nat (2020 + i)) j
                       (2 + 24 * (falsy_readings d + 1) + 40 + j))) [0..<5]"
  by (simp_all add: processedData_def Let_def
        Array_from_steps [where f = "hourly_entry js w d", OF hourly_entry_snd]
        Array_from_steps [where f = "average_entry_of js w b lbl" for b lbl, OF average_entry_of_snd]
        add.assoc)

lemma ToNumber_JNum: "ToNumber js (JNum n) = n"
  by (simp add: ToNumber_def)

lemma num_le_between:
  "num_le (Fin a) n \<Longrightarrow> num_le n (Fin b) \<Longrightarrow> \<exists>y. n = Fin y \<and> a \<le> y \<and> y \<le> b"
  by (cases n) simp_all

lemma num_le_trans: "num_le x y \<Longrightarrow> num_le y z \<Longrightarrow> num_le x z"
  by (cases x; cases y; cases z) simp_all

lemma num_le_total: "x \<noteq> NaN \<Longrightarrow> y \<noteq> NaN \<Longrightarrow> num_le x y \<or> num_le y x"
  by (cases x; cases y) auto

lemma num_le_not_NaN: "num_le x y \<Longrightarrow> x \<noteq> NaN \<and> y \<noteq> NaN"
  by (cases x; cases y) simp_all


lemma num_lt_le_iff: "num_lt (Fin c) n \<longleftrightarrow> \<not> num_le n (Fin c) \<and> n \<noteq> NaN"
  by (cases n) auto

lemma ieee_mono: "ieee_double js \<Longrightarrow> x \<le> y \<Longrightarrow> num_le (to_double js x) (to_double js y)"
  by (simp add: ieee_double_def)

lemma ieee_int:
  "ieee_double js \<Longrightarrow> \<bar>k\<bar> \<le> 2 ^ 53 \<Longrightarrow> to_double js (of_int k) = Fin (of_int k)"
  by (simp add: ieee_double_def)

lemma ieee_not_NaN: "ieee_double js \<Longrightarrow> to_double js x \<noteq> NaN"
  using ieee_mono [of js x x] num_le_not_NaN by blast

lemma ieee_between:
  assumes "ieee_double js" "of_int a \<le> x" "x \<le> of_int b" "\<bar>a\<bar> \<le> 2 ^ 53" "\<bar>b\<bar> \<le> 2 ^ 53"
  shows "\<exists>y. to_double js x = Fin y \<and> of_int a \<le> y \<and> y \<le> of_int b"
proof -
  have "num_le (Fin (of_int a)) (to_double js x)"
    using ieee_mono [OF assms(1,2)] ieee_int [OF assms(1,4)] by simp
  moreover have "num_le (to_double js x) (Fin (of_int b))"
    using ieee_mono [OF assms(1,3)] ieee_int [OF assms(1,5)] by simp
  ultimately show ?thesis by (rule num_le_between)
qed

lemma random_offset_bounds:
  assumes "ieee_double js" "0 \<le> r" "r < 1" "0 \<le> s" "s \<le> 2 ^ 52" "0 \<le> h" "h \<le> 2 ^ 52"
  shows "\<exists>z. random_offset js r (of_int s) (of_int h) = Fin z \<and>
             - of_int h \<le> z \<and> z \<le> of_int s - of_int h"
proof -
  have rs: "of_int 0 \<le> r * of_int s" "r * of_int s \<le> of_int s"
    using assms(2,3,4) by (simp_all add: mult_left_le_one_le)
  have "\<bar>0::int\<bar> \<le> 2 ^ 53" "\<bar>s\<bar> \<le> 2 ^ 53" using assms(4,5) by simp_all
  from ieee_between [OF assms(1) rs this]
  obtain y where y: "to_double js (r * of_int s) = Fin y" "0 \<le> y" "y \<le> of_int s"
    by auto
  have yh: "of_int (- h) \<le> y - of_int h" "y - of_int h \<le> of_int (s - h)"
    using y(2,3) by simp_all
  have "\<bar>- h\<bar> \<le> 2 ^ 53" "\<bar>s - h\<bar> \<le> 2 ^ 53" using assms(4-7) by simp_all
  from ieee_between [OF assms(1) yh this]
  obtain z where z: "to_double js (y - of_int h) = Fin z" "- of_int h \<le> z"
      "z \<le> of_int s - of_int h"
    by auto
  have "random_offset js r (of_int s) (of_int h) = Fin z"
    by (simp add: random_offset_def js_sub_def y(1) z(1))
  with z(2,3) show ?thesis by blast
qed

lemma random_offset_20_10:
  assumes "ieee_double js" "0 \<le> r" "r < 1"
  shows "\<exists>z. random_offset js r 20 10 = Fin z \<and> - 10 \<le> z \<and> z \<le> 10"
  using random_offset_bounds [OF assms, of 20 10] by simp

lemma random_offset_40_20:
  assumes "ieee_double js" "0 \<le> r" "r < 1"
  shows "\<exists>z. random_offset js r 40 20 = Fin z \<and> - 20 \<le> z \<and> z \<le> 20"
  using random_offset_bounds [OF assms, of 40 20] by simp


lemma map_constant:
  "length xs = n \<Longrightarrow> \<forall>x\<in>set xs. f x = c \<Longrightarrow> map f xs = replicate n c"
  by (rule replicate_eqI) auto

lemma hourly_processedData:
  "hourly (processedData js w d) = fst (Array_from 24 (hourly_entry js w d) 2)"
  by (simp add: processedData_def Let_def split: prod.splits)

lemma hourly_entry_temperature:
  "hourly_temperature (fst (hourly_entry js w d i n)) =
     (if truthy (iaqi_v ''t'' d) then iaqi_v ''t'' d
      else JNum (js_add js (Fin 25) (random_offset js (Math_random w n) 5 (5 / 2))))"
  by (simp add: hourly_entry_def Let_def case_prod_beta or_else_def default_plus_offset_def)

lemma hourly_entry_humidity:
  "\<exists>k. hourly_humidity (fst (hourly_entry js w d i n)) =
     (if truthy (iaqi_v ''h'' d) then iaqi_v ''h'' d
      else JNum (js_add js (Fin 60) (random_offset js (Math_random w k) 10 5)))"
  by (auto simp: hourly_entry_def Let_def case_prod_beta or_else_def default_plus_offset_def)

lemma hourly_entry_co2:
  "\<exists>k. hourly_co2 (fst (hourly_entry js w d i n)) =
     (if truthy (iaqi_v ''co'' d) then iaqi_v ''co'' d
      else JNum (js_add js (Fin 400) (random_offset js (Math_random w k) 100 50)))"
  by (auto simp: hourly_entry_def Let_def case_prod_beta or_else_def default_plus_offset_def)

lemma hourly_temperature_processedData:
  "\<forall>s\<in>set (hourly (processedData js w d)). \<exists>k. hourly_temperature s =
     (if truthy (iaqi_v ''t'' d) then iaqi_v ''t'' d
      else JNum (js_add js (Fin 25) (random_offset js (Math_random w k) 5 (5 / 2))))"
  unfolding hourly_processedData
  by (rule Array_from_all) (auto simp: hourly_entry_temperature)

lemma hourly_humidity_processedData:
  "\<forall>s\<in>set (hourly (processedData js w d)). \<exists>k. hourly_humidity s =
     (if truthy (iaqi_v ''h'' d) then iaqi_v ''h'' d
      else JNum (js_add js (Fin 60) (random_offset js (Math_random w k) 10 5)))"
  unfolding hourly_processedData
  by (rule Array_from_all) (rule hourly_entry_humidity)

lemma hourly_co2_processedData:
  "\<forall>s\<in>set (hourly (processedData js w d)). \<exists>k. hourly_co2 s =
     (if truthy (iaqi_v ''co'' d) then iaqi_v ''co'' d
      else JNum (js_add js (Fin 400) (random_offset js (Math_random w k) 100 50)))"
  unfolding hourly_processedData
  by (rule Array_from_all) (rule hourly_entry_co2)

lemma js_plus_Fin: "js_plus js (JNum (Fin a)) (Fin z) = JNum (to_double js (a + z))"
  by (simp add: js_plus_def)

lemma falsy_readings_le: "falsy_readings d \<le> 3"
proof -
  have "falsy_readings d \<le> length [''t'', ''h'', ''co'']"
    unfolding falsy_readings_def by (rule length_filter_le)
  then show ?thesis by simp
qed

lemma distinct_variation_draws: "distinct (variation_draws d)"
proof -
  have "falsy_readings d = 0 \<or> falsy_readings d = 1 \<or> falsy_readings d = 2
      \<or> falsy_readings d = 3"
    using falsy_readings_le [of d] by arith
  then show ?thesis
    by (elim disjE) (simp_all add: variation_draws_def Let_def upt_rec)
qed

lemma length_variation_draws: "length (variation_draws d) = 69"
  by (simp add: variation_draws_def Let_def)

lemma synthetic_values_processedData:
  "synthetic_values (processedData js w d)
     = map (\<lambda>k. fst (generateVariation js w (js_member d ''aqi'') k)) (variation_draws d)"
  by (simp add: synthetic_values_def processedData_series variation_draws_def Let_def
        hourly_entry_value average_entry_of_value comp_def add.assoc)

lemma generateVariation_bounds:
  assumes "ieee_double js" "0 \<le> r" "r < 1" "- 20 \<le> b"
  shows "num_le (Fin 0)
           (Math_max (Fin 0) (ToNumber js (js_plus js (JNum (Fin b)) (random_offset js r 40 20))))"
    and "num_le (Math_max (Fin 0)
                   (ToNumber js (js_plus js (JNum (Fin b)) (random_offset js r 40 20))))
           (js_add js (Fin b) (Fin 20))"
    and "num_le (js_sub js (Fin b) (Fin 20))
           (Math_max (Fin 0) (ToNumber js (js_plus js (JNum (Fin b)) (random_offset js r 40 20))))"
proof -
  obtain z where z: "random_offset js r 40 20 = Fin z" "- 20 \<le> z" "z \<le> 20"
    using random_offset_40_20 [OF assms(1-3)] by blast
  define u where "u = to_double js (b + z)"
  have val: "ToNumber js (js_plus js (JNum (Fin b)) (random_offset js r 40 20)) = u"
    by (simp add: z(1) js_plus_Fin ToNumber_JNum u_def)
  have u: "u \<noteq> NaN" unfolding u_def using assms(1) by (rule ieee_not_NaN)
  have zero: "to_double js 0 = Fin 0" using ieee_int [OF assms(1), of 0] by simp
  have up: "num_le u (to_double js (b + 20))"
    unfolding u_def using z(3) by (intro ieee_mono [OF assms(1)]) simp
  have lo: "num_le (to_double js (b - 20)) u"
    unfolding u_def using z(2) by (intro ieee_mono [OF assms(1)]) simp
  have top: "num_le (Fin 0) (to_double js (b + 20))"
    using ieee_mono [OF assms(1), of 0 "b + 20"] assms(4) by (simp add: zero)
  have add: "js_add js (Fin b) (Fin 20) = to_double js (b + 20)" by simp
  have sub: "js_sub js (Fin b) (Fin 20) = to_double js (b - 20)" by (simp add: js_sub_def)
  show "num_le (Fin 0)
           (Math_max (Fin 0) (ToNumber js (js_plus js (JNum (Fin b)) (random_offset js r 40 20))))"
    unfolding val using u by (simp add: Math_max_def)
  show "num_le (Math_max (Fin 0)
                   (ToNumber js (js_plus js (JNum (Fin b)) (random_offset js r 40 20))))
           (js_add js (Fin b) (Fin 20))"
    unfolding val add using u up top by (simp add: Math_max_def)
  show "num_le (js_sub js (Fin b) (Fin 20))
           (Math_max (Fin 0) (ToNumber js (js_plus js (JNum (Fin b)) (random_offset js r 40 20))))"
  proof (cases "num_le (Fin 0) u")
    case True
    then show ?thesis unfolding val sub using u lo by (simp add: Math_max_def)
  next
    case False
    then have "num_le u (Fin 0)" using u num_le_total [of u "Fin 0"] by auto
    with lo have "num_le (to_double js (b - 20)) (Fin 0)" by (rule num_le_trans)
    with False show ?thesis unfolding val sub using u by (simp add: Math_max_def)
  qed
qed

lemma example_random_in_range: "0 \<le> r \<Longrightarrow> r < 1 \<Longrightarrow> random_in_range (example_world r out)"
  by (simp add: random_in_range_def example_world_def)

lemma example_ieee_double: "ieee_double example_engine"
  by (simp add: ieee_double_def example_engine_def)

lemma hd_hourly_processedData:
  "hd (hourly (processedData js w d)) = fst (hourly_entry js w d 0 2)"
proof -
  have "[0..<24] = 0 # [1..<24]" by (simp add: upt_rec)
  then show ?thesis by (simp add: processedData_series numeral_2_eq_2)
qed

lemma ieee_int_between:
  assumes "ieee_double js" "k \<in> \<int>" "\<bar>k\<bar> \<le> 2 ^ 52" "0 \<le> m" "m \<le> 2 ^ 52"
    "num_le (to_double js (k - of_int m)) q" "num_le q (to_double js (k + of_int m))"
  shows "\<exists>x. q = Fin x \<and> k - of_int m \<le> x \<and> x \<le> k + of_int m"
proof -
  from assms(2) obtain i :: int where k: "k = of_int i" by (auto elim: Ints_cases)
  have i: "\<bar>i\<bar> \<le> 2 ^ 52" using assms(3) unfolding k 
    by (metis of_int_abs of_int_le_iff of_int_numeral of_int_power)
  have lo: "to_double js (k - of_int m) = Fin (k - of_int m)"
    using ieee_int [OF assms(1), of "i - m"] i assms(4,5) by (simp add: k)
  have hi: "to_double js (k + of_int m) = Fin (k + of_int m)"
    using ieee_int [OF assms(1), of "i + m"] i assms(4,5) by (simp add: k)
  show ?thesis using assms(6,7) unfolding lo hi by (rule num_le_between)
qed

lemma example_location_average:
  "location_average example_engine (JNum (Fin a)) c = Fin (of_int \<lfloor>a * c + 1 / 2\<rfloor>)"
  by (simp add: location_average_def js_times_def ToNumber_def example_engine_def)

lemma example_generateVariation:
  "fst (generateVariation example_engine (example_world r out) (JNum (Fin a)) k)
     = Math_max (Fin 0) (Fin (a + (r * 40 - 20)))"
  by (simp add: generateVariation_def js_plus_def random_offset_def js_sub_def ToNumber_def
                example_engine_def example_world_def)

lemma hourly_entry_cong:
  assumes "same_clock_and_draws w1 w2" "js_member d1 ''aqi'' = js_member d2 ''aqi''"
    "iaqi_v ''t'' d1 = iaqi_v ''t'' d2" "iaqi_v ''h'' d1 = iaqi_v ''h'' d2"
    "iaqi_v ''co'' d1 = iaqi_v ''co'' d2" "iaqi_v ''no2'' d1 = iaqi_v ''no2'' d2"
    "iaqi_v ''so2'' d1 = iaqi_v ''so2'' d2" "iaqi_v ''o3'' d1 = iaqi_v ''o3'' d2"
  shows "hourly_entry js w1 d1 = hourly_entry js w2 d2"
proof -
  have dp: "default_plus_offset js w1 = default_plus_offset js w2"
    using assms(1) by (intro ext) (simp add: default_plus_offset_def same_clock_and_draws_def)
  have gv: "generateVariation js w1 = generateVariation js w2"
    using assms(1) by (intro ext) (simp add: generateVariation_def same_clock_and_draws_def)
  have hb: "hours_back w1 = hours_back w2"
    using assms(1) by (simp add: same_clock_and_draws_def)
  show ?thesis
    by (intro ext) (simp only: hourly_entry_def dp gv hb assms(2-))
qed

lemma average_entry_of_cong:
  "same_clock_and_draws w1 w2 \<Longrightarrow> average_entry_of js w1 = average_entry_of js w2"
  by (intro ext)
     (simp add: average_entry_of_def generateVariation_def same_clock_and_draws_def)

lemma processedData_cong:
  assumes "same_clock_and_draws w1 w2" "js_member d1 ''aqi'' = js_member d2 ''aqi''"
    "iaqi_v ''t'' d1 = iaqi_v ''t'' d2" "iaqi_v ''h'' d1 = iaqi_v ''h'' d2"
    "iaqi_v ''co'' d1 = iaqi_v ''co'' d2" "iaqi_v ''pm25'' d1 = iaqi_v ''pm25'' d2"
    "iaqi_v ''no2'' d1 = iaqi_v ''no2'' d2"
    "iaqi_v ''so2'' d1 = iaqi_v ''so2'' d2" "iaqi_v ''o3'' d1 = iaqi_v ''o3'' d2"
  shows "processedData js w1 d1 = processedData js w2 d2"
proof -
  have h: "hourly_entry js w1 d1 = hourly_entry js w2 d2"
    using assms by (intro hourly_entry_cong)
  have a: "average_entry_of js w1 = average_entry_of js w2"
    using assms(1) by (rule average_entry_of_cong)
  have w: "now_toISOString w1 = now_toISOString w2" "month_short w1 = month_short w2"
    "Math_random w1 = Math_random w2"
    using assms(1) by (simp_all add: same_clock_and_draws_def)
  show ?thesis
    unfolding processedData_def by (simp only: h a w assms(2-))
qed

lemma hourly_entry_pollutants:
  "hourly_pollutants (hourly_aqi (fst (hourly_entry js w d i n)))
     = Some \<lparr>pm25 = JUndefined, no2 = iaqi_v ''no2'' d, so2 = iaqi_v ''so2'' d,
             o3 = iaqi_v ''o3'' d\<rparr>"
  by (simp add: hourly_entry_def Let_def case_prod_beta)

lemma hourly_pollutants_processedData:
  "\<forall>s\<in>set (hourly (processedData js w d)).
     hourly_pollutants (hourly_aqi s)
       = Some \<lparr>pm25 = JUndefined, no2 = iaqi_v ''no2'' d, so2 = iaqi_v ''so2'' d,
               o3 = iaqi_v ''o3'' d\<rparr>"
  unfolding hourly_processedData
  by (rule Array_from_all) (rule hourly_entry_pollutants)

lemma example_feed_readings:
  "js_member (example_feed a t) ''aqi'' = a"
  "iaqi_v ''t'' (example_feed a t) = t"
  "iaqi_v ''h'' (example_feed a t) = JUndefined"
  "iaqi_v ''co'' (example_feed a t) = JNum (Fin 0)"
  "iaqi_v ''pm25'' (example_feed a t) = JNum (Fin 50)"
  "iaqi_v ''no2'' (example_feed a t) = JNum (Fin 7)"
  "iaqi_v ''so2'' (example_feed a t) = JUndefined"
  "iaqi_v ''o3'' (example_feed a t) = JUndefined"
  by (simp_all add: example_feed_def iaqi_v_def optional_def nullish_def)

lemma example_feed_variant_readings:
  "js_member (example_feed_variant a t) ''aqi'' = a"
  "iaqi_v ''t'' (example_feed_variant a t) = t"
  "iaqi_v ''h'' (example_feed_variant a t) = JUndefined"
  "iaqi_v ''co'' (example_feed_variant a t) = JNum (Fin 0)"
  "iaqi_v ''pm25'' (example_feed_variant a t) = JNum (Fin 50)"
  "iaqi_v ''no2'' (example_feed_variant a t) = JNum (Fin 7)"
  "iaqi_v ''so2'' (example_feed_variant a t) = JUndefined"
  "iaqi_v ''o3'' (example_feed_variant a t) = JUndefined"
  by (simp_all add: example_feed_variant_def iaqi_v_def optional_def nullish_def)

lemma example_success_variant:
  "fetchEnvironmentalData js (example_world r (ok_response (example_feed_variant a t))) c
     = Inr (processedData js (example_world r (ok_response (example_feed_variant a t)))
              (example_feed_variant a t))"
  by (simp add: fetchEnvironmentalData_upstream example_upstream)
     (simp add: ok_response_def ok_body_def example_feed_variant_def nullish_def)

lemma example_same_clock_and_draws:
  "same_clock_and_draws (example_world r out1) (example_world r out2)"
  by (simp add: same_clock_and_draws_def example_world_def)

subsection \<open>The category thresholds\<close>




subsection \<open>The current reading\<close>

text \<open>Claim C7. The current AQI is never computed here: after every successful fetch
  the current value of the view model is the \<open>aqi\<close> property of the upstream feed object,
  as it came.\<close>

theorem current_aqi_verbatim:
  "fetchEnvironmentalData js w c = Inr vm \<Longrightarrow> upstream_feed js w c = Some d \<Longrightarrow>
     aqi_value (current_aqi (current vm)) = js_member d ''aqi''"
  by (auto dest!: success_feed simp: current_processedData)

theorem current_aqi_verbatim_witness:
  "fetchEnvironmentalData example_engine
       (example_world (1 / 2) (ok_response (example_feed (JNum (Fin 73)) JUndefined)))
       (Some ''delhi'')
     = Inr (processedData example_engine
              (example_world (1 / 2) (ok_response (example_feed (JNum (Fin 73)) JUndefined)))
              (example_feed (JNum (Fin 73)) JUndefined)) \<and>
   upstream_feed example_engine
       (example_world (1 / 2) (ok_response (example_feed (JNum (Fin 73)) JUndefined)))
       (Some ''delhi'')
     = Some (example_feed (JNum (Fin 73)) JUndefined) \<and>
   aqi_value (current_aqi (current (processedData example_engine
       (example_world (1 / 2) (ok_response (example_feed (JNum (Fin 73)) JUndefined)))
       (example_feed (JNum (Fin 73)) JUndefined)))) = JNum (Fin 73)"
  using current_aqi_verbatim [of example_engine
      "example_world (1 / 2) (ok_response (example_feed (JNum (Fin 73)) JUndefined))"
      "Some ''delhi''"
      "processedData example_engine
         (example_world (1 / 2) (ok_response (example_feed (JNum (Fin 73)) JUndefined)))
         (example_feed (JNum (Fin 73)) JUndefined)"
      "example_feed (JNum (Fin 73)) JUndefined"]
  by (simp add: example_success example_upstream_feed) (simp add: example_feed_def)

subsection \<open>The shape of the view model\<close>

text \<open>Claim C5. After every successful fetch the view model has a fixed shape: 24
  hourly samples; 24 daily, 4 weekly, 12 monthly and 5 yearly entries in the time-range
  averages; and five location averages labelled \<open>downtown\<close>, \<open>suburbs\<close>, \<open>industrial\<close>,
  \<open>residential\<close>, \<open>parks\<close>, in this order.\<close>

theorem view_model_shape:
  "fetchEnvironmentalData js w c = Inr vm \<Longrightarrow>
     length (hourly vm) = 24 \<and>
     length (daily (timeRangeAverages vm)) = 24 \<and>
     length (weekly (timeRangeAverages vm)) = 4 \<and>
     length (monthly (timeRangeAverages vm)) = 12 \<and>
     length (yearly (timeRangeAverages vm)) = 5 \<and>
     map label (locationAverages vm) =
       [''downtown'', ''suburbs'', ''industrial'', ''residential'', ''parks'']"
proof -
  assume "fetchEnvironmentalData js w c = Inr vm"
  then obtain d where vm: "vm = processedData js w d" by (auto dest: success_feed)
  show ?thesis
    by (simp add: vm processedData_series locationAverages_processedData)
qed

theorem view_model_shape_witness:
  "fetchEnvironmentalData example_engine
       (example_world 0 (ok_response (example_feed (JNum (Fin 50)) (JNum (Fin 30))))) None
     = Inr (processedData example_engine
              (example_world 0 (ok_response (example_feed (JNum (Fin 50)) (JNum (Fin 30)))))
              (example_feed (JNum (Fin 50)) (JNum (Fin 30)))) \<and>
   length (hourly (processedData example_engine
              (example_world 0 (ok_response (example_feed (JNum (Fin 50)) (JNum (Fin 30)))))
              (example_feed (JNum (Fin 50)) (JNum (Fin 30))))) = 24 \<and>
   map label (locationAverages (processedData example_engine
              (example_world 0 (ok_response (example_feed (JNum (Fin 50)) (JNum (Fin 30)))))
              (example_feed (JNum (Fin 50)) (JNum (Fin 30))))) =
       [''downtown'', ''suburbs'', ''industrial'', ''residential'', ''parks'']"
  using view_model_shape [of example_engine
      "example_world 0 (ok_response (example_feed (JNum (Fin 50)) (JNum (Fin 30))))" None
      "processedData example_engine
         (example_world 0 (ok_response (example_feed (JNum (Fin 50)) (JNum (Fin 30)))))
         (example_feed (JNum (Fin 50)) (JNum (Fin 30)))"]
  by (simp add: example_success)

subsection \<open>The hourly temperature, humidity and CO2\<close>

text \<open>Claim C10. In \<open>waqiData.iaqi?.t?.v || 25 + (Math.random() * 5 - 2.5)\<close> the
  operator \<open>||\<close> binds looser than \<open>+\<close>. So after every successful fetch whose feed has a
  truthy \<open>iaqi.t.v\<close> (respectively \<open>iaqi.h.v\<close>, \<open>iaqi.co.v\<close>) each of the 24 hourly
  samples has the temperature (respectively humidity, co2) of the current snapshot, which
  is the upstream reading, with no random variation; the random offset is applied only
  when the reading is falsy, which for a reading of the feed means missing or zero, and
  then around the default 25 (respectively 60, 400).\<close>

theorem hourly_readings_not_varied:
  "fetchEnvironmentalData js w c = Inr vm \<Longrightarrow> upstream_feed js w c = Some d \<Longrightarrow>
     length (hourly vm) = 24 \<and>
     (truthy (iaqi_v ''t'' d) \<longrightarrow>
        temperature (current vm) = iaqi_v ''t'' d \<and>
        (\<forall>s\<in>set (hourly vm). hourly_temperature s = temperature (current vm))) \<and>
     (truthy (iaqi_v ''h'' d) \<longrightarrow>
        humidity (current vm) = iaqi_v ''h'' d \<and>
        (\<forall>s\<in>set (hourly vm). hourly_humidity s = humidity (current vm))) \<and>
     (truthy (iaqi_v ''co'' d) \<longrightarrow>
        co2 (current vm) = iaqi_v ''co'' d \<and>
        (\<forall>s\<in>set (hourly vm). hourly_co2 s = co2 (current vm))) \<and>
     (\<not> truthy (iaqi_v ''t'' d) \<longrightarrow>
        (\<forall>s\<in>set (hourly vm). \<exists>k. hourly_temperature s =
            JNum (js_add js (Fin 25) (random_offset js (Math_random w k) 5 (5 / 2))))) \<and>
     (\<not> truthy (iaqi_v ''h'' d) \<longrightarrow>
        (\<forall>s\<in>set (hourly vm). \<exists>k. hourly_humidity s =
            JNum (js_add js (Fin 60) (random_offset js (Math_random w k) 10 5)))) \<and>
     (\<not> truthy (iaqi_v ''co'' d) \<longrightarrow>
        (\<forall>s\<in>set (hourly vm). \<exists>k. hourly_co2 s =
            JNum (js_add js (Fin 400) (random_offset js (Math_random w k) 100 50))))"
proof -
  assume run: "fetchEnvironmentalData js w c = Inr vm" "upstream_feed js w c = Some d"
  then have vm: "vm = processedData js w d" by (auto dest: success_feed)
  have len: "length (hourly vm) = 24"
    by (simp add: vm processedData_series)
  have T: "truthy (iaqi_v ''t'' d) \<longrightarrow>
        temperature (current vm) = iaqi_v ''t'' d \<and>
        (\<forall>s\<in>set (hourly vm). hourly_temperature s = temperature (current vm))"
    using hourly_temperature_processedData [of js w d]
    by (auto simp: vm current_processedData js_or_def)
  have H: "truthy (iaqi_v ''h'' d) \<longrightarrow>
        humidity (current vm) = iaqi_v ''h'' d \<and>
        (\<forall>s\<in>set (hourly vm). hourly_humidity s = humidity (current vm))"
    using hourly_humidity_processedData [of js w d]
    by (auto simp: vm current_processedData js_or_def)
  have C: "truthy (iaqi_v ''co'' d) \<longrightarrow>
        co2 (current vm) = iaqi_v ''co'' d \<and>
        (\<forall>s\<in>set (hourly vm). hourly_co2 s = co2 (current vm))"
    using hourly_co2_processedData [of js w d]
    by (auto simp: vm current_processedData js_or_def)
  have T': "\<not> truthy (iaqi_v ''t'' d) \<longrightarrow>
        (\<forall>s\<in>set (hourly vm). \<exists>k. hourly_temperature s =
            JNum (js_add js (Fin 25) (random_offset js (Math_random w k) 5 (5 / 2))))"
  proof
    assume falsy: "\<not> truthy (iaqi_v ''t'' d)"
    show "\<forall>s\<in>set (hourly vm). \<exists>k. hourly_temperature s =
            JNum (js_add js (Fin 25) (random_offset js (Math_random w k) 5 (5 / 2)))"
      using hourly_temperature_processedData [of js w d] by (simp only: vm falsy if_False)
  qed
  have H': "\<not> truthy (iaqi_v ''h'' d) \<longrightarrow>
        (\<forall>s\<in>set (hourly vm). \<exists>k. hourly_humidity s =
            JNum (js_add js (Fin 60) (random_offset js (Math_random w k) 10 5)))"
  proof
    assume falsy: "\<not> truthy (iaqi_v ''h'' d)"
    show "\<forall>s\<in>set (hourly vm). \<exists>k. hourly_humidity s =
            JNum (js_add js (Fin 60) (random_offset js (Math_random w k) 10 5))"
      using hourly_humidity_processedData [of js w d] by (simp only: vm falsy if_False)
  qed
  have C': "\<not> truthy (iaqi_v ''co'' d) \<longrightarrow>
        (\<forall>s\<in>set (hourly vm). \<exists>k. hourly_co2 s =
            JNum (js_add js (Fin 400) (random_offset js (Math_random w k) 100 50)))"
  proof
    assume falsy: "\<not> truthy (iaqi_v ''co'' d)"
    show "\<forall>s\<in>set (hourly vm). \<exists>k. hourly_co2 s =
            JNum (js_add js (Fin 400) (random_offset js (Math_random w k) 100 50))"
      using hourly_co2_processedData [of js w d] by (simp only: vm falsy if_False)
  qed
  from len T H C T' H' C' show ?thesis by blast
qed

theorem hourly_readings_not_varied_witness:
  "fetchEnvironmentalData example_engine
       (example_world (1 / 4) (ok_response (example_feed (JNum (Fin 50)) (JNum (Fin 30))))) None
     = Inr (processedData example_engine
              (example_world (1 / 4) (ok_response (example_feed (JNum (Fin 50)) (JNum (Fin 30)))))
              (example_feed (JNum (Fin 50)) (JNum (Fin 30)))) \<and>
   upstream_feed example_engine
       (example_world (1 / 4) (ok_response (example_feed (JNum (Fin 50)) (JNum (Fin 30))))) None
     = Some (example_feed (JNum (Fin 50)) (JNum (Fin 30))) \<and>
   iaqi_v ''t'' (example_feed (JNum (Fin 50)) (JNum (Fin 30))) = JNum (Fin 30) \<and>
   iaqi_v ''h'' (example_feed (JNum (Fin 50)) (JNum (Fin 30))) = JUndefined \<and>
   iaqi_v ''co'' (example_feed (JNum (Fin 50)) (JNum (Fin 30))) = JNum (Fin 0) \<and>
   truthy (iaqi_v ''t'' (example_feed (JNum (Fin 50)) (JNum (Fin 30)))) \<and>
   \<not> truthy (iaqi_v ''h'' (example_feed (JNum (Fin 50)) (JNum (Fin 30)))) \<and>
   \<not> truthy (iaqi_v ''co'' (example_feed (JNum (Fin 50)) (JNum (Fin 30)))) \<and>
   temperature (current (processedData example_engine
       (example_world (1 / 4) (ok_response (example_feed (JNum (Fin 50)) (JNum (Fin 30)))))
       (example_feed (JNum (Fin 50)) (JNum (Fin 30))))) = JNum (Fin 30) \<and>
   map hourly_temperature (hourly (processedData example_engine
       (example_world (1 / 4) (ok_response (example_feed (JNum (Fin 50)) (JNum (Fin 30)))))
       (example_feed (JNum (Fin 50)) (JNum (Fin 30))))) = replicate 24 (JNum (Fin 30)) \<and>
   map hourly_humidity (hourly (processedData example_engine
       (example_world (1 / 4) (ok_response (example_feed (JNum (Fin 50)) (JNum (Fin 30)))))
       (example_feed (JNum (Fin 50)) (JNum (Fin 30))))) = replicate 24 (JNum (Fin (115 / 2))) \<and>
   map hourly_co2 (hourly (processedData example_engine
       (example_world (1 / 4) (ok_response (example_feed (JNum (Fin 50)) (JNum (Fin 30)))))
       (example_feed (JNum (Fin 50)) (JNum (Fin 30))))) = replicate 24 (JNum (Fin 375))"
proof -
  let ?d = "example_feed (JNum (Fin 50)) (JNum (Fin 30))"
  let ?w = "example_world (1 / 4) (ok_response ?d)"
  have t: "iaqi_v ''t'' ?d = JNum (Fin 30)" and h: "iaqi_v ''h'' ?d = JUndefined"
    and c: "iaqi_v ''co'' ?d = JNum (Fin 0)"
    by (simp_all add: iaqi_v_def optional_def nullish_def example_feed_def)
  have cur: "temperature (current (processedData example_engine ?w ?d)) = JNum (Fin 30)"
    by (simp add: current_processedData js_or_def t)
  have r: "\<And>k. Math_random ?w k = 1 / 4" by (simp add: example_world_def)
  have off: "js_add example_engine (Fin 60) (random_offset example_engine (1 / 4) 10 5)
               = Fin (115 / 2)"
    "js_add example_engine (Fin 400) (random_offset example_engine (1 / 4) 100 50) = Fin 375"
    by (simp_all add: random_offset_def js_sub_def example_engine_def)
  have all: "length (hourly (processedData example_engine ?w ?d)) = 24 \<and>
     (\<forall>s\<in>set (hourly (processedData example_engine ?w ?d)).
        hourly_temperature s = JNum (Fin 30)) \<and>
     (\<forall>s\<in>set (hourly (processedData example_engine ?w ?d)).
        hourly_humidity s = JNum (Fin (115 / 2))) \<and>
     (\<forall>s\<in>set (hourly (processedData example_engine ?w ?d)).
        hourly_co2 s = JNum (Fin 375))"
    using hourly_readings_not_varied [of example_engine ?w None
        "processedData example_engine ?w ?d" ?d]
    by (simp add: example_success example_upstream_feed t h c cur r off)
  then show ?thesis
    by (simp add: example_success example_upstream_feed t h c cur map_constant)
qed

subsection \<open>The prediction\<close>

text \<open>Claim C9, as stated: after every successful fetch the prediction is present, its
  confidence is 0.85, its \<open>predictedAQI\<close> lies strictly within 10 of the current value, and
  its trend is \<open>improving\<close> or \<open>worsening\<close>, never \<open>stable\<close>. The distance is not strict:
  \<open>Math.random()\<close> may return 0, and then \<open>predictedAQI\<close> is the current value minus 10.\<close>

theorem prediction_within_10_counterexample:
  "random_in_range (example_world 0 (ok_response (example_feed (JNum (Fin 50)) JUndefined))) \<and>
   fetchEnvironmentalData example_engine
       (example_world 0 (ok_response (example_feed (JNum (Fin 50)) JUndefined))) None
     = Inr (processedData example_engine
              (example_world 0 (ok_response (example_feed (JNum (Fin 50)) JUndefined)))
              (example_feed (JNum (Fin 50)) JUndefined)) \<and>
   aqi_value (current_aqi (current (processedData example_engine
       (example_world 0 (ok_response (example_feed (JNum (Fin 50)) JUndefined)))
       (example_feed (JNum (Fin 50)) JUndefined)))) = JNum (Fin 50) \<and>
   prediction (current_aqi (current (processedData example_engine
       (example_world 0 (ok_response (example_feed (JNum (Fin 50)) JUndefined)))
       (example_feed (JNum (Fin 50)) JUndefined))))
     = Some \<lparr>predictedAQI = JNum (Fin 40), confidence = Fin (85 / 100), trend = worsening\<rparr> \<and>
   \<not> \<bar>(40::real) - 50\<bar> < 10"
  by (simp add: example_random_in_range example_success current_processedData)
     (simp add: example_feed_def example_world_def example_engine_def js_plus_def
                random_offset_def js_sub_def)

text \<open>Claim C9, amended: after every successful fetch the prediction is present, its
  confidence is the value of the literal \<open>0.85\<close>, and its trend is \<open>improving\<close> or
  \<open>worsening\<close>, never \<open>stable\<close>. When the current AQI value is a finite number \<open>a\<close>, its
  \<open>predictedAQI\<close> is a number between \<open>a - 10\<close> and \<open>a + 10\<close> inclusive, both taken in
  double arithmetic; for an integer \<open>a\<close> that is \<open>|predictedAQI - a| <= 10\<close>.\<close>

theorem prediction_bounds:
  "ieee_double js \<Longrightarrow> random_in_range w \<Longrightarrow> fetchEnvironmentalData js w c = Inr vm \<Longrightarrow>
     (\<exists>p. prediction (current_aqi (current vm)) = Some p \<and>
          confidence p = to_double js (85 / 100) \<and>
          (trend p = improving \<or> trend p = worsening) \<and> trend p \<noteq> stable \<and>
          (\<forall>a. aqi_value (current_aqi (current vm)) = JNum (Fin a) \<longrightarrow>
             (\<exists>q. predictedAQI p = JNum q \<and>
                  num_le (js_sub js (Fin a) (Fin 10)) q \<and>
                  num_le q (js_add js (Fin a) (Fin 10))) \<and>
             (a \<in> \<int> \<and> \<bar>a\<bar> \<le> 2 ^ 52 \<longrightarrow>
                (\<exists>x. predictedAQI p = JNum (Fin x) \<and> \<bar>x - a\<bar> \<le> 10))))"
proof -
  assume ieee: "ieee_double js" and rng: "random_in_range w"
    and run: "fetchEnvironmentalData js w c = Inr vm"
  from run obtain d where vm: "vm = processedData js w d" by (auto dest: success_feed)
  from rng have r: "0 \<le> Math_random w 0" "Math_random w 0 < 1"
    by (simp_all add: random_in_range_def)
  obtain z where z: "random_offset js (Math_random w 0) 20 10 = Fin z" "- 10 \<le> z" "z \<le> 10"
    using random_offset_20_10 [OF ieee r] by blast
  define p where "p = \<lparr>predictedAQI = js_plus js (js_member d ''aqi'') (Fin z),
      confidence = to_double js (85 / 100),
      trend = (if Math_random w 1 > 1 / 2 then improving else worsening)\<rparr>"
  have pred: "prediction (current_aqi (current vm)) = Some p"
    by (simp add: vm current_processedData p_def z(1))
  have num: "\<forall>a. aqi_value (current_aqi (current vm)) = JNum (Fin a) \<longrightarrow>
             (\<exists>q. predictedAQI p = JNum q \<and>
                  num_le (js_sub js (Fin a) (Fin 10)) q \<and>
                  num_le q (js_add js (Fin a) (Fin 10))) \<and>
             (a \<in> \<int> \<and> \<bar>a\<bar> \<le> 2 ^ 52 \<longrightarrow>
                (\<exists>x. predictedAQI p = JNum (Fin x) \<and> \<bar>x - a\<bar> \<le> 10))"
  proof (intro allI impI)
    fix a assume "aqi_value (current_aqi (current vm)) = JNum (Fin a)"
    then have a: "js_member d ''aqi'' = JNum (Fin a)"
      by (simp add: vm current_processedData)
    have q: "predictedAQI p = JNum (to_double js (a + z))"
      by (simp add: p_def a js_plus_Fin)
    have lo: "num_le (to_double js (a - 10)) (to_double js (a + z))"
      using z(2) by (intro ieee_mono [OF ieee]) simp
    have hi: "num_le (to_double js (a + z)) (to_double js (a + 10))"
      using z(3) by (intro ieee_mono [OF ieee]) simp
    have first: "\<exists>q. predictedAQI p = JNum q \<and>
                  num_le (js_sub js (Fin a) (Fin 10)) q \<and>
                  num_le q (js_add js (Fin a) (Fin 10))"
      using q lo hi by (simp add: js_sub_def)
    have second: "a \<in> \<int> \<and> \<bar>a\<bar> \<le> 2 ^ 52 \<longrightarrow>
                (\<exists>x. predictedAQI p = JNum (Fin x) \<and> \<bar>x - a\<bar> \<le> 10)"
    proof
      assume int: "a \<in> \<int> \<and> \<bar>a\<bar> \<le> 2 ^ 52"
      have "\<exists>x. to_double js (a + z) = Fin x \<and> a - of_int 10 \<le> x \<and> x \<le> a + of_int 10"
        using int lo hi by (intro ieee_int_between [OF ieee]) simp_all
      then show "\<exists>x. predictedAQI p = JNum (Fin x) \<and> \<bar>x - a\<bar> \<le> 10"
        using q by auto
    qed
    from first second
    show "(\<exists>q. predictedAQI p = JNum q \<and>
                  num_le (js_sub js (Fin a) (Fin 10)) q \<and>
                  num_le q (js_add js (Fin a) (Fin 10))) \<and>
             (a \<in> \<int> \<and> \<bar>a\<bar> \<le> 2 ^ 52 \<longrightarrow>
                (\<exists>x. predictedAQI p = JNum (Fin x) \<and> \<bar>x - a\<bar> \<le> 10))"
      by blast
  qed
  have rest: "confidence p = to_double js (85 / 100) \<and>
      (trend p = improving \<or> trend p = worsening) \<and> trend p \<noteq> stable"
    by (simp add: p_def)
  from pred rest num show ?thesis by blast
qed

theorem prediction_bounds_witness:
  "ieee_double example_engine \<and>
   random_in_range
     (example_world (3 / 4) (ok_response (example_feed (JNum (Fin 50)) JUndefined))) \<and>
   fetchEnvironmentalData example_engine
       (example_world (3 / 4) (ok_response (example_feed (JNum (Fin 50)) JUndefined))) None
     = Inr (processedData example_engine
              (example_world (3 / 4) (ok_response (example_feed (JNum (Fin 50)) JUndefined)))
              (example_feed (JNum (Fin 50)) JUndefined)) \<and>
   aqi_value (current_aqi (current (processedData example_engine
       (example_world (3 / 4) (ok_response (example_feed (JNum (Fin 50)) JUndefined)))
       (example_feed (JNum (Fin 50)) JUndefined)))) = JNum (Fin 50) \<and>
   prediction (current_aqi (current (processedData example_engine
       (example_world (3 / 4) (ok_response (example_feed (JNum (Fin 50)) JUndefined)))
       (example_feed (JNum (Fin 50)) JUndefined))))
     = Some \<lparr>predictedAQI = JNum (Fin 55), confidence = Fin (85 / 100), trend = improving\<rparr>"
  using prediction_bounds [of example_engine
      "example_world (3 / 4) (ok_response (example_feed (JNum (Fin 50)) JUndefined))" None
      "processedData example_engine
         (example_world (3 / 4) (ok_response (example_feed (JNum (Fin 50)) JUndefined)))
         (example_feed (JNum (Fin 50)) JUndefined)"]
  by (simp add: example_ieee_double example_random_in_range example_success
                current_processedData)
     (simp add: example_feed_def example_world_def example_engine_def js_plus_def
                random_offset_def js_sub_def)

subsection \<open>The range of the generated values\<close>

text \<open>Claim C8, as stated: after every successful fetch with upstream AQI \<open>b\<close>, every
  value produced by \<open>generateVariation\<close> is nonnegative, at most \<open>b + 20\<close>, and at least
  \<open>b - 20\<close> whenever \<open>b \<ge> 20\<close>. The upstream \<open>aqi\<close> is not validated. When it is the
  string \<open>-\<close>, which the feed sends for a station without a reading, the fetch succeeds,
  \<open>'-' + (-20)\<close> is the string \<open>--20\<close> and \<open>Math.max(0, '--20')\<close> is \<open>NaN\<close>, which is not
  nonnegative.\<close>

theorem synthetic_not_a_number_counterexample:
  "fetchEnvironmentalData example_engine
       (example_world 0 (ok_response (example_feed (JStr ''-'') JUndefined))) None
     = Inr (processedData example_engine
              (example_world 0 (ok_response (example_feed (JStr ''-'') JUndefined)))
              (example_feed (JStr ''-'') JUndefined)) \<and>
   upstream_feed example_engine
       (example_world 0 (ok_response (example_feed (JStr ''-'') JUndefined))) None
     = Some (example_feed (JStr ''-'') JUndefined) \<and>
   js_member (example_feed (JStr ''-'') JUndefined) ''aqi'' = JStr ''-'' \<and>
   hourly_value (hourly_aqi (hd (hourly (processedData example_engine
       (example_world 0 (ok_response (example_feed (JStr ''-'') JUndefined)))
       (example_feed (JStr ''-'') JUndefined))))) = NaN \<and>
   \<not> num_le (Fin 0) (hourly_value (hourly_aqi (hd (hourly (processedData example_engine
       (example_world 0 (ok_response (example_feed (JStr ''-'') JUndefined)))
       (example_feed (JStr ''-'') JUndefined))))))"
proof -
  let ?d = "example_feed (JStr ''-'') JUndefined"
  let ?w = "example_world 0 (ok_response ?d)"
  have a: "js_member ?d ''aqi'' = JStr ''-''" by (simp add: example_feed_def)
  have r: "\<And>k. Math_random ?w k = 0" by (simp add: example_world_def)
  have off: "random_offset example_engine 0 40 20 = Fin (- 20)"
    by (simp add: random_offset_def js_sub_def example_engine_def)
  have str: "Number_toString example_engine (Fin (- 20)) = ''-20''"
    by (simp add: example_engine_def example_Number_toString_def) code_simp
  have num: "StringToNumber example_engine ''--20'' = NaN"
    by (simp add: example_engine_def example_StringToNumber_def)
  have v: "hourly_value (hourly_aqi (hd (hourly (processedData example_engine ?w ?d)))) = NaN"
    by (simp add: hd_hourly_processedData hourly_entry_value generateVariation_def a r off
                  js_plus_def str ToNumber_def num Math_max_def)
  show ?thesis by (simp add: example_success example_upstream_feed a v)
qed

text \<open>Claim C8, amended: after every successful fetch whose upstream \<open>aqi\<close> is a finite
  number \<open>b \<ge> -20\<close>, as every AQI reading is, every value produced by
  \<open>generateVariation\<close> (each hourly value and each average of the daily, weekly, monthly
  and yearly series) is a nonnegative number, at most \<open>b + 20\<close> and at least \<open>b - 20\<close>,
  the sum and the difference taken in double arithmetic; for an integer \<open>b\<close> they are
  exact.\<close>

theorem synthetic_bounds:
  "ieee_double js \<Longrightarrow> random_in_range w \<Longrightarrow> fetchEnvironmentalData js w c = Inr vm \<Longrightarrow>
   upstream_feed js w c = Some d \<Longrightarrow> js_member d ''aqi'' = JNum (Fin b) \<Longrightarrow> - 20 \<le> b \<Longrightarrow>
     (\<forall>v\<in>set (synthetic_values vm).
        num_le (Fin 0) v \<and>
        num_le v (js_add js (Fin b) (Fin 20)) \<and>
        num_le (js_sub js (Fin b) (Fin 20)) v \<and>
        (b \<in> \<int> \<and> \<bar>b\<bar> \<le> 2 ^ 52 \<longrightarrow> (\<exists>x. v = Fin x \<and> 0 \<le> x \<and> b - 20 \<le> x \<and> x \<le> b + 20)))"
proof -
  assume ieee: "ieee_double js" and rng: "random_in_range w"
    and run: "fetchEnvironmentalData js w c = Inr vm"
    and feed: "upstream_feed js w c = Some d"
    and aqi: "js_member d ''aqi'' = JNum (Fin b)" and b: "- 20 \<le> b"
  from run feed have vm: "vm = processedData js w d" by (auto dest: success_feed)
  show ?thesis
  proof
    fix v assume "v \<in> set (synthetic_values vm)"
    then obtain k where v: "v = fst (generateVariation js w (JNum (Fin b)) k)"
      by (auto simp: vm synthetic_values_processedData aqi)
    from rng have r: "0 \<le> Math_random w k" "Math_random w k < 1"
      by (simp_all add: random_in_range_def)
    have v': "v = Math_max (Fin 0)
        (ToNumber js (js_plus js (JNum (Fin b)) (random_offset js (Math_random w k) 40 20)))"
      by (simp add: v generateVariation_def)
    have nonneg: "num_le (Fin 0) v"
      and upper: "num_le v (js_add js (Fin b) (Fin 20))"
      and lower: "num_le (js_sub js (Fin b) (Fin 20)) v"
      unfolding v' using generateVariation_bounds [OF ieee r b] by blast+
    have int: "b \<in> \<int> \<and> \<bar>b\<bar> \<le> 2 ^ 52 \<longrightarrow>
        (\<exists>x. v = Fin x \<and> 0 \<le> x \<and> b - 20 \<le> x \<and> x \<le> b + 20)"
    proof
      assume bi: "b \<in> \<int> \<and> \<bar>b\<bar> \<le> 2 ^ 52"
      have lo: "num_le (to_double js (b - of_int 20)) v"
        using lower by (simp add: js_sub_def)
      have hi: "num_le v (to_double js (b + of_int 20))"
        using upper by simp
      obtain x where x: "v = Fin x" "b - of_int 20 \<le> x" "x \<le> b + of_int 20"
        using ieee_int_between [OF ieee _ _ _ _ lo hi] bi by auto
      from nonneg x(1) have "0 \<le> x" by simp
      with x show "\<exists>x. v = Fin x \<and> 0 \<le> x \<and> b - 20 \<le> x \<and> x \<le> b + 20" by auto
    qed
    from nonneg upper lower int
    show "num_le (Fin 0) v \<and>
        num_le v (js_add js (Fin b) (Fin 20)) \<and>
        num_le (js_sub js (Fin b) (Fin 20)) v \<and>
        (b \<in> \<int> \<and> \<bar>b\<bar> \<le> 2 ^ 52 \<longrightarrow> (\<exists>x. v = Fin x \<and> 0 \<le> x \<and> b - 20 \<le> x \<and> x \<le> b + 20))"
      by blast
  qed
qed

theorem synthetic_bounds_witness:
  "ieee_double example_engine \<and>
   random_in_range
     (example_world (1 / 4) (ok_response (example_feed (JNum (Fin 50)) JUndefined))) \<and>
   fetchEnvironmentalData example_engine
       (example_world (1 / 4) (ok_response (example_feed (JNum (Fin 50)) JUndefined))) None
     = Inr (processedData example_engine
              (example_world (1 / 4) (ok_response (example_feed (JNum (Fin 50)) JUndefined)))
              (example_feed (JNum (Fin 50)) JUndefined)) \<and>
   upstream_feed example_engine
       (example_world (1 / 4) (ok_response (example_feed (JNum (Fin 50)) JUndefined))) None
     = Some (example_feed (JNum (Fin 50)) JUndefined) \<and>
   js_member (example_feed (JNum (Fin 50)) JUndefined) ''aqi'' = JNum (Fin 50) \<and>
   - 20 \<le> (50::real) \<and>
   set (synthetic_values (processedData example_engine
        (example_world (1 / 4) (ok_response (example_feed (JNum (Fin 50)) JUndefined)))
        (example_feed (JNum (Fin 50)) JUndefined)))
     \<subseteq> {v. num_le (Fin 0) v \<and> num_le v (Fin 70) \<and> num_le (Fin 30) v}"
proof -
  let ?d = "example_feed (JNum (Fin 50)) JUndefined"
  let ?w = "example_world (1 / 4) (ok_response ?d)"
  have a: "js_member ?d ''aqi'' = JNum (Fin 50)" by (simp add: example_feed_def)
  have "\<forall>v\<in>set (synthetic_values (processedData example_engine ?w ?d)).
      num_le (Fin 0) v \<and> num_le v (Fin 70) \<and> num_le (Fin 30) v"
    using synthetic_bounds [of example_engine ?w None "processedData example_engine ?w ?d" ?d 50]
    by (simp add: example_ieee_double example_random_in_range example_success
                  example_upstream_feed a)
       (simp add: example_engine_def js_sub_def)
  then show ?thesis
    by (auto simp: example_ieee_double example_random_in_range example_success
                   example_upstream_feed a)
qed

subsection \<open>Failures\<close>




subsection \<open>Two runs over one response\<close>

text \<open>Claim C1, as stated: the transformation from the upstream response to the view
  model is a pure function, so that two runs over the same response produce identical view
  models. The function reads the clock and calls \<open>Math.random()\<close>: two runs over the same
  response whose draws differ produce different predictions.\<close>

theorem two_runs_differ_counterexample:
  "upstream example_engine
       (example_world 0 (ok_response (example_feed (JNum (Fin 50)) JUndefined))) None
     = upstream example_engine
         (example_world (1 / 2) (ok_response (example_feed (JNum (Fin 50)) JUndefined))) None \<and>
   fetchEnvironmentalData example_engine
       (example_world 0 (ok_response (example_feed (JNum (Fin 50)) JUndefined))) None
     = Inr (processedData example_engine
              (example_world 0 (ok_response (example_feed (JNum (Fin 50)) JUndefined)))
              (example_feed (JNum (Fin 50)) JUndefined)) \<and>
   fetchEnvironmentalData example_engine
       (example_world (1 / 2) (ok_response (example_feed (JNum (Fin 50)) JUndefined))) None
     = Inr (processedData example_engine
              (example_world (1 / 2) (ok_response (example_feed (JNum (Fin 50)) JUndefined)))
              (example_feed (JNum (Fin 50)) JUndefined)) \<and>
   processedData example_engine
       (example_world 0 (ok_response (example_feed (JNum (Fin 50)) JUndefined)))
       (example_feed (JNum (Fin 50)) JUndefined)
     \<noteq> processedData example_engine
           (example_world (1 / 2) (ok_response (example_feed (JNum (Fin 50)) JUndefined)))
           (example_feed (JNum (Fin 50)) JUndefined)"
proof -
  let ?d = "example_feed (JNum (Fin 50)) JUndefined"
  let ?w0 = "example_world 0 (ok_response ?d)"
  let ?w1 = "example_world (1 / 2) (ok_response ?d)"
  have up: "upstream example_engine ?w0 None = upstream example_engine ?w1 None"
    by (simp add: example_upstream)
  have p0: "prediction (current_aqi (current (processedData example_engine ?w0 ?d)))
      = Some \<lparr>predictedAQI = JNum (Fin 40), confidence = Fin (85 / 100), trend = worsening\<rparr>"
    by (simp add: current_processedData)
       (simp add: example_feed_def example_world_def example_engine_def js_plus_def
                  random_offset_def js_sub_def)
  have p1: "prediction (current_aqi (current (processedData example_engine ?w1 ?d)))
      = Some \<lparr>predictedAQI = JNum (Fin 50), confidence = Fin (85 / 100), trend = worsening\<rparr>"
    by (simp add: current_processedData)
       (simp add: example_feed_def example_world_def example_engine_def js_plus_def
                  random_offset_def js_sub_def)
  have "processedData example_engine ?w0 ?d \<noteq> processedData example_engine ?w1 ?d"
  proof
    assume "processedData example_engine ?w0 ?d = processedData example_engine ?w1 ?d"
    then have "prediction (current_aqi (current (processedData example_engine ?w0 ?d)))
        = prediction (current_aqi (current (processedData example_engine ?w1 ?d)))"
      by (rule arg_cong)
    then show False by (simp only: p0 p1) simp
  qed
  then show ?thesis by (simp add: up example_success)
qed

text \<open>Claim C1, amended: the result is a function of the upstream response together
  with the clock as read in the time zone of the host, the locale's month names and the
  results of \<open>Math.random()\<close>. Two runs over the same response fail alike, with the same
  error, and when both succeed they agree on the current temperature, humidity, co2, AQI
  value, category and pollutants, on the confidence of the prediction and on the location
  averages; when they also read the same clock in the same time zone and the same month
  names and draw the same random numbers, their view models are identical. The
  timestamp, the hour and month labels, \<open>predictedAQI\<close>, the trend, the hourly series and
  the time-range averages may differ between runs.\<close>

theorem runs_over_same_response:
  "upstream js w1 c1 = upstream js w2 c2 \<Longrightarrow>
     (fetchEnvironmentalData js w1 c1 = Inl e \<longleftrightarrow> fetchEnvironmentalData js w2 c2 = Inl e) \<and>
     (fetchEnvironmentalData js w1 c1 = Inr vm1 \<and> fetchEnvironmentalData js w2 c2 = Inr vm2 \<longrightarrow>
        temperature (current vm1) = temperature (current vm2) \<and>
        humidity (current vm1) = humidity (current vm2) \<and>
        co2 (current vm1) = co2 (current vm2) \<and>
        aqi_value (current_aqi (current vm1)) = aqi_value (current_aqi (current vm2)) \<and>
        category (current_aqi (current vm1)) = category (current_aqi (current vm2)) \<and>
        pollutants (current_aqi (current vm1)) = pollutants (current_aqi (current vm2)) \<and>
        map_option confidence (prediction (current_aqi (current vm1)))
          = map_option confidence (prediction (current_aqi (current vm2))) \<and>
        locationAverages vm1 = locationAverages vm2 \<and>
        (same_clock_and_draws w1 w2 \<longrightarrow> vm1 = vm2))"
proof -
  assume up: "upstream js w1 c1 = upstream js w2 c2"
  have err: "fetchEnvironmentalData js w1 c1 = Inl e \<longleftrightarrow> fetchEnvironmentalData js w2 c2 = Inl e"
    by (simp add: fetchEnvironmentalData_upstream up split: fetch_outcome.splits sum.splits)
  have val: "fetchEnvironmentalData js w1 c1 = Inr vm1 \<and> fetchEnvironmentalData js w2 c2 = Inr vm2 \<longrightarrow>
        temperature (current vm1) = temperature (current vm2) \<and>
        humidity (current vm1) = humidity (current vm2) \<and>
        co2 (current vm1) = co2 (current vm2) \<and>
        aqi_value (current_aqi (current vm1)) = aqi_value (current_aqi (current vm2)) \<and>
        category (current_aqi (current vm1)) = category (current_aqi (current vm2)) \<and>
        pollutants (current_aqi (current vm1)) = pollutants (current_aqi (current vm2)) \<and>
        map_option confidence (prediction (current_aqi (current vm1)))
          = map_option confidence (prediction (current_aqi (current vm2))) \<and>
        locationAverages vm1 = locationAverages vm2 \<and>
        (same_clock_and_draws w1 w2 \<longrightarrow> vm1 = vm2)"
  proof
    assume "fetchEnvironmentalData js w1 c1 = Inr vm1 \<and> fetchEnvironmentalData js w2 c2 = Inr vm2"
    then obtain d1 d2 where f1: "upstream_feed js w1 c1 = Some d1"
      and v1: "vm1 = processedData js w1 d1"
      and f2: "upstream_feed js w2 c2 = Some d2" and v2: "vm2 = processedData js w2 d2"
      by (auto dest!: success_feed)
    from f1 f2 up have d: "d1 = d2" by (simp add: upstream_feed_def)
    have same: "same_clock_and_draws w1 w2 \<longrightarrow> vm1 = vm2"
      unfolding v1 v2 d by (auto intro: processedData_cong)
    show "temperature (current vm1) = temperature (current vm2) \<and>
        humidity (current vm1) = humidity (current vm2) \<and>
        co2 (current vm1) = co2 (current vm2) \<and>
        aqi_value (current_aqi (current vm1)) = aqi_value (current_aqi (current vm2)) \<and>
        category (current_aqi (current vm1)) = category (current_aqi (current vm2)) \<and>
        pollutants (current_aqi (current vm1)) = pollutants (current_aqi (current vm2)) \<and>
        map_option confidence (prediction (current_aqi (current vm1)))
          = map_option confidence (prediction (current_aqi (current vm2))) \<and>
        locationAverages vm1 = locationAverages vm2 \<and>
        (same_clock_and_draws w1 w2 \<longrightarrow> vm1 = vm2)"
      using same
      by (simp add: v1 v2 d current_processedData locationAverages_processedData)
  qed
  from err val show ?thesis by blast
qed

theorem runs_over_same_response_witness:
  "upstream example_engine
       (example_world 0 (ok_response (example_feed (JNum (Fin 50)) (JNum (Fin 30))))) None
     = upstream example_engine
         (example_world (1 / 2) (ok_response (example_feed (JNum (Fin 50)) (JNum (Fin 30)))))
         (Some ''delhi'') \<and>
   fetchEnvironmentalData example_engine
       (example_world 0 (ok_response (example_feed (JNum (Fin 50)) (JNum (Fin 30))))) None
     = Inr (processedData example_engine
              (example_world 0 (ok_response (example_feed (JNum (Fin 50)) (JNum (Fin 30)))))
              (example_feed (JNum (Fin 50)) (JNum (Fin 30)))) \<and>
   fetchEnvironmentalData example_engine
       (example_world (1 / 2) (ok_response (example_feed (JNum (Fin 50)) (JNum (Fin 30)))))
       (Some ''delhi'')
     = Inr (processedData example_engine
              (example_world (1 / 2) (ok_response (example_feed (JNum (Fin 50)) (JNum (Fin 30)))))
              (example_feed (JNum (Fin 50)) (JNum (Fin 30)))) \<and>
   temperature (current (processedData example_engine
       (example_world 0 (ok_response (example_feed (JNum (Fin 50)) (JNum (Fin 30)))))
       (example_feed (JNum (Fin 50)) (JNum (Fin 30)))))
     = temperature (current (processedData example_engine
         (example_world (1 / 2) (ok_response (example_feed (JNum (Fin 50)) (JNum (Fin 30)))))
         (example_feed (JNum (Fin 50)) (JNum (Fin 30))))) \<and>
   locationAverages (processedData example_engine
       (example_world 0 (ok_response (example_feed (JNum (Fin 50)) (JNum (Fin 30)))))
       (example_feed (JNum (Fin 50)) (JNum (Fin 30))))
     = locationAverages (processedData example_engine
         (example_world (1 / 2) (ok_response (example_feed (JNum (Fin 50)) (JNum (Fin 30)))))
         (example_feed (JNum (Fin 50)) (JNum (Fin 30)))) \<and>
   same_clock_and_draws
     (example_world 0 (ok_response (example_feed (JNum (Fin 50)) (JNum (Fin 30)))))
     ((example_world 0 (ok_response (example_feed (JNum (Fin 50)) (JNum (Fin 30)))))
        \<lparr>WAQI_API_KEY := ''another key''\<rparr>) \<and>
   fetchEnvironmentalData example_engine
       (example_world 0 (ok_response (example_feed (JNum (Fin 50)) (JNum (Fin 30))))) None
     = fetchEnvironmentalData example_engine
         ((example_world 0 (ok_response (example_feed (JNum (Fin 50)) (JNum (Fin 30)))))
            \<lparr>WAQI_API_KEY := ''another key''\<rparr>) (Some ''delhi'')"
proof -
  let ?d = "example_feed (JNum (Fin 50)) (JNum (Fin 30))"
  let ?w0 = "example_world 0 (ok_response ?d)"
  let ?w1 = "example_world (1 / 2) (ok_response ?d)"
  let ?w2 = "?w0\<lparr>WAQI_API_KEY := ''another key''\<rparr>"
  have up: "upstream example_engine ?w0 None = upstream example_engine ?w1 (Some ''delhi'')"
    by (simp add: example_upstream)
  have up2: "upstream example_engine ?w0 None = upstream example_engine ?w2 (Some ''delhi'')"
    by (simp add: upstream_def example_world_def)
  have same: "same_clock_and_draws ?w0 ?w2"
    by (simp add: same_clock_and_draws_def)
  have run2: "fetchEnvironmentalData example_engine ?w2 (Some ''delhi'')
      = Inr (processedData example_engine ?w2 ?d)"
    using up2 by (simp add: fetchEnvironmentalData_upstream example_upstream)
                 (simp add: ok_response_def ok_body_def example_feed_def nullish_def)
  have agree: "temperature (current (processedData example_engine ?w0 ?d))
       = temperature (current (processedData example_engine ?w1 ?d))"
    "locationAverages (processedData example_engine ?w0 ?d)
       = locationAverages (processedData example_engine ?w1 ?d)"
    using runs_over_same_response [OF up, of "Error []"
        "processedData example_engine ?w0 ?d" "processedData example_engine ?w1 ?d"]
    by (simp_all add: example_success)
  have "processedData example_engine ?w0 ?d = processedData example_engine ?w2 ?d"
    using runs_over_same_response [OF up2, of "Error []"
        "processedData example_engine ?w0 ?d" "processedData example_engine ?w2 ?d"]
    by (simp add: example_success run2 same)
  then have eq: "fetchEnvironmentalData example_engine ?w0 None
      = fetchEnvironmentalData example_engine ?w2 (Some ''delhi'')"
    by (simp add: example_success run2)
  show ?thesis
    by (intro conjI up example_success agree same eq)
qed

subsection \<open>What the view model takes from upstream\<close>

text \<open>Claim C6, as stated: the only upstream values incorporated into the view model are
  the current AQI reading and the pollutant readings \<open>pm25\<close>, \<open>no2\<close>, \<open>so2\<close>, \<open>o3\<close>; no
  other field takes its value from the response. The temperature, humidity and co2 fields
  do: two responses that agree on the AQI and on the four pollutant readings and differ in
  \<open>iaqi.t.v\<close> give different current temperatures.\<close>

theorem temperature_from_upstream_counterexample:
  "js_member (example_feed (JNum (Fin 50)) (JNum (Fin 30))) ''aqi''
     = js_member (example_feed (JNum (Fin 50)) (JNum (Fin 31))) ''aqi'' \<and>
   iaqi_v ''pm25'' (example_feed (JNum (Fin 50)) (JNum (Fin 30)))
     = iaqi_v ''pm25'' (example_feed (JNum (Fin 50)) (JNum (Fin 31))) \<and>
   iaqi_v ''no2'' (example_feed (JNum (Fin 50)) (JNum (Fin 30)))
     = iaqi_v ''no2'' (example_feed (JNum (Fin 50)) (JNum (Fin 31))) \<and>
   iaqi_v ''so2'' (example_feed (JNum (Fin 50)) (JNum (Fin 30)))
     = iaqi_v ''so2'' (example_feed (JNum (Fin 50)) (JNum (Fin 31))) \<and>
   iaqi_v ''o3'' (example_feed (JNum (Fin 50)) (JNum (Fin 30)))
     = iaqi_v ''o3'' (example_feed (JNum (Fin 50)) (JNum (Fin 31))) \<and>
   same_clock_and_draws
     (example_world 0 (ok_response (example_feed (JNum (Fin 50)) (JNum (Fin 30)))))
     (example_world 0 (ok_response (example_feed (JNum (Fin 50)) (JNum (Fin 31))))) \<and>
   fetchEnvironmentalData example_engine
       (example_world 0 (ok_response (example_feed (JNum (Fin 50)) (JNum (Fin 30))))) None
     = Inr (processedData example_engine
              (example_world 0 (ok_response (example_feed (JNum (Fin 50)) (JNum (Fin 30)))))
              (example_feed (JNum (Fin 50)) (JNum (Fin 30)))) \<and>
   fetchEnvironmentalData example_engine
       (example_world 0 (ok_response (example_feed (JNum (Fin 50)) (JNum (Fin 31))))) None
     = Inr (processedData example_engine
              (example_world 0 (ok_response (example_feed (JNum (Fin 50)) (JNum (Fin 31)))))
              (example_feed (JNum (Fin 50)) (JNum (Fin 31)))) \<and>
   temperature (current (processedData example_engine
       (example_world 0 (ok_response (example_feed (JNum (Fin 50)) (JNum (Fin 30)))))
       (example_feed (JNum (Fin 50)) (JNum (Fin 30))))) = JNum (Fin 30) \<and>
   temperature (current (processedData example_engine
       (example_world 0 (ok_response (example_feed (JNum (Fin 50)) (JNum (Fin 31)))))
       (example_feed (JNum (Fin 50)) (JNum (Fin 31))))) = JNum (Fin 31)"
  by (simp add: example_success current_processedData example_feed_readings js_or_def
                example_same_clock_and_draws)

text \<open>Claim C6, amended: the upstream values incorporated into the view model are
  \<open>aqi\<close>, which is the current AQI value and decides the category; the pollutant readings
  \<open>iaqi.pm25.v\<close>, \<open>iaqi.no2.v\<close>, \<open>iaqi.so2.v\<close>, \<open>iaqi.o3.v\<close>, which are the pollutants of
  the current snapshot (the last three also those of every hourly sample); and the
  readings \<open>iaqi.t.v\<close>, \<open>iaqi.h.v\<close>, \<open>iaqi.co.v\<close>, which are the current temperature,
  humidity and co2 when truthy, 25, 60 and 400 standing in otherwise. Nothing else of the
  response reaches the view model: two successful runs with the same clock, time zone,
  month names and draws whose feeds agree on these eight values return the same view
  model.\<close>

theorem view_model_upstream_dependence:
  "fetchEnvironmentalData js w1 c1 = Inr vm1 \<Longrightarrow> upstream_feed js w1 c1 = Some d1 \<Longrightarrow>
   fetchEnvironmentalData js w2 c2 = Inr vm2 \<Longrightarrow> upstream_feed js w2 c2 = Some d2 \<Longrightarrow>
   same_clock_and_draws w1 w2 \<Longrightarrow>
     aqi_value (current_aqi (current vm1)) = js_member d1 ''aqi'' \<and>
     category (current_aqi (current vm1)) = getAqiCategory js (js_member d1 ''aqi'') \<and>
     pollutants (current_aqi (current vm1))
       = \<lparr>pm25 = iaqi_v ''pm25'' d1, no2 = iaqi_v ''no2'' d1,
          so2 = iaqi_v ''so2'' d1, o3 = iaqi_v ''o3'' d1\<rparr> \<and>
     (\<forall>s\<in>set (hourly vm1).
        hourly_pollutants (hourly_aqi s)
          = Some \<lparr>pm25 = JUndefined, no2 = iaqi_v ''no2'' d1,
                  so2 = iaqi_v ''so2'' d1, o3 = iaqi_v ''o3'' d1\<rparr>) \<and>
     temperature (current vm1)
       = (if truthy (iaqi_v ''t'' d1) then iaqi_v ''t'' d1 else JNum (Fin 25)) \<and>
     humidity (current vm1)
       = (if truthy (iaqi_v ''h'' d1) then iaqi_v ''h'' d1 else JNum (Fin 60)) \<and>
     co2 (current vm1)
       = (if truthy (iaqi_v ''co'' d1) then iaqi_v ''co'' d1 else JNum (Fin 400)) \<and>
     (js_member d1 ''aqi'' = js_member d2 ''aqi'' \<and>
      iaqi_v ''pm25'' d1 = iaqi_v ''pm25'' d2 \<and> iaqi_v ''no2'' d1 = iaqi_v ''no2'' d2 \<and>
      iaqi_v ''so2'' d1 = iaqi_v ''so2'' d2 \<and> iaqi_v ''o3'' d1 = iaqi_v ''o3'' d2 \<and>
      iaqi_v ''t'' d1 = iaqi_v ''t'' d2 \<and> iaqi_v ''h'' d1 = iaqi_v ''h'' d2 \<and>
      iaqi_v ''co'' d1 = iaqi_v ''co'' d2
      \<longrightarrow> vm1 = vm2)"
proof -
  assume run1: "fetchEnvironmentalData js w1 c1 = Inr vm1" "upstream_feed js w1 c1 = Some d1"
    and run2: "fetchEnvironmentalData js w2 c2 = Inr vm2" "upstream_feed js w2 c2 = Some d2"
    and same: "same_clock_and_draws w1 w2"
  from run1 have v1: "vm1 = processedData js w1 d1" by (auto dest: success_feed)
  from run2 have v2: "vm2 = processedData js w2 d2" by (auto dest: success_feed)
  have cur: "aqi_value (current_aqi (current vm1)) = js_member d1 ''aqi'' \<and>
     category (current_aqi (current vm1)) = getAqiCategory js (js_member d1 ''aqi'') \<and>
     pollutants (current_aqi (current vm1))
       = \<lparr>pm25 = iaqi_v ''pm25'' d1, no2 = iaqi_v ''no2'' d1,
          so2 = iaqi_v ''so2'' d1, o3 = iaqi_v ''o3'' d1\<rparr> \<and>
     temperature (current vm1)
       = (if truthy (iaqi_v ''t'' d1) then iaqi_v ''t'' d1 else JNum (Fin 25)) \<and>
     humidity (current vm1)
       = (if truthy (iaqi_v ''h'' d1) then iaqi_v ''h'' d1 else JNum (Fin 60)) \<and>
     co2 (current vm1)
       = (if truthy (iaqi_v ''co'' d1) then iaqi_v ''co'' d1 else JNum (Fin 400))"
    by (simp add: v1 current_processedData js_or_def)
  have hp: "\<forall>s\<in>set (hourly vm1).
        hourly_pollutants (hourly_aqi s)
          = Some \<lparr>pm25 = JUndefined, no2 = iaqi_v ''no2'' d1,
                  so2 = iaqi_v ''so2'' d1, o3 = iaqi_v ''o3'' d1\<rparr>"
    unfolding v1 by (rule hourly_pollutants_processedData)
  have eq: "js_member d1 ''aqi'' = js_member d2 ''aqi'' \<and>
      iaqi_v ''pm25'' d1 = iaqi_v ''pm25'' d2 \<and> iaqi_v ''no2'' d1 = iaqi_v ''no2'' d2 \<and>
      iaqi_v ''so2'' d1 = iaqi_v ''so2'' d2 \<and> iaqi_v ''o3'' d1 = iaqi_v ''o3'' d2 \<and>
      iaqi_v ''t'' d1 = iaqi_v ''t'' d2 \<and> iaqi_v ''h'' d1 = iaqi_v ''h'' d2 \<and>
      iaqi_v ''co'' d1 = iaqi_v ''co'' d2
      \<longrightarrow> vm1 = vm2"
    unfolding v1 v2 using same by (auto intro: processedData_cong)
  from cur hp eq show ?thesis by blast
qed

theorem view_model_upstream_dependence_witness:
  "fetchEnvironmentalData example_engine
       (example_world (1 / 4) (ok_response (example_feed (JNum (Fin 50)) (JNum (Fin 30))))) None
     = Inr (processedData example_engine
              (example_world (1 / 4) (ok_response (example_feed (JNum (Fin 50)) (JNum (Fin 30)))))
              (example_feed (JNum (Fin 50)) (JNum (Fin 30)))) \<and>
   upstream_feed example_engine
       (example_world (1 / 4) (ok_response (example_feed (JNum (Fin 50)) (JNum (Fin 30))))) None
     = Some (example_feed (JNum (Fin 50)) (JNum (Fin 30))) \<and>
   fetchEnvironmentalData example_engine
       (example_world (1 / 4)
          (ok_response (example_feed_variant (JNum (Fin 50)) (JNum (Fin 30))))) None
     = Inr (processedData example_engine
              (example_world (1 / 4)
                 (ok_response (example_feed_variant (JNum (Fin 50)) (JNum (Fin 30)))))
              (example_feed_variant (JNum (Fin 50)) (JNum (Fin 30)))) \<and>
   upstream_feed example_engine
       (example_world (1 / 4)
          (ok_response (example_feed_variant (JNum (Fin 50)) (JNum (Fin 30))))) None
     = Some (example_feed_variant (JNum (Fin 50)) (JNum (Fin 30))) \<and>
   example_feed (JNum (Fin 50)) (JNum (Fin 30))
     \<noteq> example_feed_variant (JNum (Fin 50)) (JNum (Fin 30)) \<and>
   same_clock_and_draws
     (example_world (1 / 4) (ok_response (example_feed (JNum (Fin 50)) (JNum (Fin 30)))))
     (example_world (1 / 4)
        (ok_response (example_feed_variant (JNum (Fin 50)) (JNum (Fin 30))))) \<and>
   iaqi_v ''t'' (example_feed (JNum (Fin 50)) (JNum (Fin 30))) = JNum (Fin 30) \<and>
   iaqi_v ''pm25'' (example_feed (JNum (Fin 50)) (JNum (Fin 30))) = JNum (Fin 50) \<and>
   temperature (current (processedData example_engine
       (example_world (1 / 4) (ok_response (example_feed (JNum (Fin 50)) (JNum (Fin 30)))))
       (example_feed (JNum (Fin 50)) (JNum (Fin 30))))) = JNum (Fin 30) \<and>
   humidity (current (processedData example_engine
       (example_world (1 / 4) (ok_response (example_feed (JNum (Fin 50)) (JNum (Fin 30)))))
       (example_feed (JNum (Fin 50)) (JNum (Fin 30))))) = JNum (Fin 60) \<and>
   pollutants (current_aqi (current (processedData example_engine
       (example_world (1 / 4) (ok_response (example_feed (JNum (Fin 50)) (JNum (Fin 30)))))
       (example_feed (JNum (Fin 50)) (JNum (Fin 30))))))
     = \<lparr>pm25 = JNum (Fin 50), no2 = JNum (Fin 7), so2 = JUndefined, o3 = JUndefined\<rparr> \<and>
   processedData example_engine
       (example_world (1 / 4) (ok_response (example_feed (JNum (Fin 50)) (JNum (Fin 30)))))
       (example_feed (JNum (Fin 50)) (JNum (Fin 30)))
     = processedData example_engine
         (example_world (1 / 4)
            (ok_response (example_feed_variant (JNum (Fin 50)) (JNum (Fin 30)))))
         (example_feed_variant (JNum (Fin 50)) (JNum (Fin 30)))"
proof -
  let ?d1 = "example_feed (JNum (Fin 50)) (JNum (Fin 30))"
  let ?d2 = "example_feed_variant (JNum (Fin 50)) (JNum (Fin 30))"
  let ?w1 = "example_world (1 / 4) (ok_response ?d1)"
  let ?w2 = "example_world (1 / 4) (ok_response ?d2)"
  have ne: "?d1 \<noteq> ?d2" by (simp add: example_feed_def example_feed_variant_def)
  have eq: "processedData example_engine ?w1 ?d1 = processedData example_engine ?w2 ?d2"
    using view_model_upstream_dependence [of example_engine ?w1 None
        "processedData example_engine ?w1 ?d1" ?d1 ?w2 None
        "processedData example_engine ?w2 ?d2" ?d2]
    by (simp add: example_success example_success_variant example_upstream_feed
                  example_same_clock_and_draws example_feed_readings
                  example_feed_variant_readings)
  have cur: "temperature (current (processedData example_engine ?w1 ?d1)) = JNum (Fin 30)"
    "humidity (current (processedData example_engine ?w1 ?d1)) = JNum (Fin 60)"
    "pollutants (current_aqi (current (processedData example_engine ?w1 ?d1)))
       = \<lparr>pm25 = JNum (Fin 50), no2 = JNum (Fin 7), so2 = JUndefined, o3 = JUndefined\<rparr>"
    by (simp_all add: current_processedData example_feed_readings js_or_def)
  show ?thesis
    by (intro conjI example_success example_success_variant example_upstream_feed
              example_same_clock_and_draws example_feed_readings ne eq cur)
qed

subsection \<open>Where the historical and comparative values come from\<close>

text \<open>Claim C2, as stated: after every successful fetch every hourly AQI value, every
  average of the time-range series and each of the five location averages is randomly
  generated at request time and not derived from any upstream signal. The location
  averages are not random: runs over the same response with different draws give the same
  five numbers. And all of these values derive from the upstream AQI: with the draws held
  fixed, another upstream AQI gives other location averages and other hourly values.\<close>

theorem location_averages_counterexample:
  "fetchEnvironmentalData example_engine
       (example_world 0 (ok_response (example_feed (JNum (Fin 50)) JUndefined))) None
     = Inr (processedData example_engine
              (example_world 0 (ok_response (example_feed (JNum (Fin 50)) JUndefined)))
              (example_feed (JNum (Fin 50)) JUndefined)) \<and>
   fetchEnvironmentalData example_engine
       (example_world (1 / 2) (ok_response (example_feed (JNum (Fin 50)) JUndefined))) None
     = Inr (processedData example_engine
              (example_world (1 / 2) (ok_response (example_feed (JNum (Fin 50)) JUndefined)))
              (example_feed (JNum (Fin 50)) JUndefined)) \<and>
   fetchEnvironmentalData example_engine
       (example_world 0 (ok_response (example_feed (JNum (Fin 100)) JUndefined))) None
     = Inr (processedData example_engine
              (example_world 0 (ok_response (example_feed (JNum (Fin 100)) JUndefined)))
              (example_feed (JNum (Fin 100)) JUndefined)) \<and>
   map averageAqi (locationAverages (processedData example_engine
       (example_world 0 (ok_response (example_feed (JNum (Fin 50)) JUndefined)))
       (example_feed (JNum (Fin 50)) JUndefined)))
     = [Fin 60, Fin 40, Fin 70, Fin 45, Fin 35] \<and>
   map averageAqi (locationAverages (processedData example_engine
       (example_world (1 / 2) (ok_response (example_feed (JNum (Fin 50)) JUndefined)))
       (example_feed (JNum (Fin 50)) JUndefined)))
     = [Fin 60, Fin 40, Fin 70, Fin 45, Fin 35] \<and>
   map averageAqi (locationAverages (processedData example_engine
       (example_world 0 (ok_response (example_feed (JNum (Fin 100)) JUndefined)))
       (example_feed (JNum (Fin 100)) JUndefined)))
     = [Fin 120, Fin 80, Fin 140, Fin 90, Fin 70] \<and>
   hourly_value (hourly_aqi (hd (hourly (processedData example_engine
       (example_world 0 (ok_response (example_feed (JNum (Fin 50)) JUndefined)))
       (example_feed (JNum (Fin 50)) JUndefined))))) = Fin 30 \<and>
   hourly_value (hourly_aqi (hd (hourly (processedData example_engine
       (example_world 0 (ok_response (example_feed (JNum (Fin 100)) JUndefined)))
       (example_feed (JNum (Fin 100)) JUndefined))))) = Fin 80"
proof -
  have a: "\<And>x t. js_member (example_feed x t) ''aqi'' = x" by (simp add: example_feed_def)
  show ?thesis
    by (simp add: example_success locationAverages_processedData hd_hourly_processedData
                  hourly_entry_value a example_location_average example_generateVariation
                  Math_max_def)
qed

text \<open>Claim C2, amended: after every successful fetch each of the 24 hourly AQI values
  and each average of the daily, weekly, monthly and yearly series, 69 values in all, is
  \<open>Math.max(0, currentAqi + (Math.random() * 40 - 20))\<close>, computed at request time from
  the upstream AQI and a call of \<open>Math.random()\<close> of its own; the five location averages
  are not random: they are \<open>Math.round(currentAqi * c)\<close> for \<open>c\<close> = 1.2, 0.8, 1.4, 0.9,
  0.7, computed in double arithmetic from the upstream AQI.\<close>

theorem historical_values_derivation:
  "fetchEnvironmentalData js w c = Inr vm \<Longrightarrow> upstream_feed js w c = Some d \<Longrightarrow>
     synthetic_values vm =
       map (\<lambda>k. Math_max (Fin 0)
                  (ToNumber js (js_plus js (js_member d ''aqi'')
                     (random_offset js (Math_random w k) 40 20))))
           (variation_draws d) \<and>
     distinct (variation_draws d) \<and>
     length (variation_draws d) = 69 \<and>
     locationAverages vm =
       [\<lparr>label = ''downtown'',
         averageAqi = Math_round (js_times js (js_member d ''aqi'') (to_double js (12 / 10)))\<rparr>,
        \<lparr>label = ''suburbs'',
         averageAqi = Math_round (js_times js (js_member d ''aqi'') (to_double js (8 / 10)))\<rparr>,
        \<lparr>label = ''industrial'',
         averageAqi = Math_round (js_times js (js_member d ''aqi'') (to_double js (14 / 10)))\<rparr>,
        \<lparr>label = ''residential'',
         averageAqi = Math_round (js_times js (js_member d ''aqi'') (to_double js (9 / 10)))\<rparr>,
        \<lparr>label = ''parks'',
         averageAqi = Math_round (js_times js (js_member d ''aqi'') (to_double js (7 / 10)))\<rparr>]"
proof -
  assume run: "fetchEnvironmentalData js w c = Inr vm" "upstream_feed js w c = Some d"
  then have vm: "vm = processedData js w d" by (auto dest: success_feed)
  have syn: "synthetic_values vm =
       map (\<lambda>k. Math_max (Fin 0)
                  (ToNumber js (js_plus js (js_member d ''aqi'')
                     (random_offset js (Math_random w k) 40 20))))
           (variation_draws d)"
    by (simp add: vm synthetic_values_processedData generateVariation_def)
  have loc: "locationAverages vm =
       [\<lparr>label = ''downtown'',
         averageAqi = Math_round (js_times js (js_member d ''aqi'') (to_double js (12 / 10)))\<rparr>,
        \<lparr>label = ''suburbs'',
         averageAqi = Math_round (js_times js (js_member d ''aqi'') (to_double js (8 / 10)))\<rparr>,
        \<lparr>label = ''industrial'',
         averageAqi = Math_round (js_times js (js_member d ''aqi'') (to_double js (14 / 10)))\<rparr>,
        \<lparr>label = ''residential'',
         averageAqi = Math_round (js_times js (js_member d ''aqi'') (to_double js (9 / 10)))\<rparr>,
        \<lparr>label = ''parks'',
         averageAqi = Math_round (js_times js (js_member d ''aqi'') (to_double js (7 / 10)))\<rparr>]"
    by (simp only: vm locationAverages_processedData location_average_def)
  from syn loc distinct_variation_draws [of d] length_variation_draws [of d]
  show ?thesis by blast
qed

theorem historical_values_derivation_witness:
  "fetchEnvironmentalData example_engine
       (example_world (1 / 4) (ok_response (example_feed (JNum (Fin 50)) JUndefined))) None
     = Inr (processedData example_engine
              (example_world (1 / 4) (ok_response (example_feed (JNum (Fin 50)) JUndefined)))
              (example_feed (JNum (Fin 50)) JUndefined)) \<and>
   upstream_feed example_engine
       (example_world (1 / 4) (ok_response (example_feed (JNum (Fin 50)) JUndefined))) None
     = Some (example_feed (JNum (Fin 50)) JUndefined) \<and>
   synthetic_values (processedData example_engine
        (example_world (1 / 4) (ok_response (example_feed (JNum (Fin 50)) JUndefined)))
        (example_feed (JNum (Fin 50)) JUndefined))
     = replicate 69 (Fin 40) \<and>
   map averageAqi (locationAverages (processedData example_engine
       (example_world (1 / 4) (ok_response (example_feed (JNum (Fin 50)) JUndefined)))
       (example_feed (JNum (Fin 50)) JUndefined)))
     = [Fin 60, Fin 40, Fin 70, Fin 45, Fin 35]"
proof -
  let ?d = "example_feed (JNum (Fin 50)) JUndefined"
  let ?w = "example_world (1 / 4) (ok_response ?d)"
  let ?vm = "processedData example_engine ?w ?d"
  have a: "js_member ?d ''aqi'' = JNum (Fin 50)" by (simp add: example_feed_def)
  have v: "\<And>k. Math_max (Fin 0) (ToNumber example_engine (js_plus example_engine (JNum (Fin 50))
             (random_offset example_engine (Math_random ?w k) 40 20))) = Fin 40"
    using example_generateVariation [of "1 / 4" "ok_response ?d" 50]
    by (simp add: generateVariation_def Math_max_def)
  have l: "\<And>c. Math_round (js_times example_engine (JNum (Fin 50)) (to_double example_engine c))
             = Fin (of_int \<lfloor>50 * c + 1 / 2\<rfloor>)"
    using example_location_average [of 50] by (simp add: location_average_def)
  have all: "synthetic_values ?vm = map (\<lambda>k. Fin 40) (variation_draws ?d) \<and>
     length (variation_draws ?d) = 69 \<and>
     map averageAqi (locationAverages ?vm) = [Fin 60, Fin 40, Fin 70, Fin 45, Fin 35]"
    using historical_values_derivation [of example_engine ?w None ?vm ?d]
    by (simp add: example_success example_upstream_feed a v l)
  then have "synthetic_values ?vm = replicate 69 (Fin 40)"
    by (simp add: map_replicate_const)
  with all show ?thesis by (simp add: example_success example_upstream_feed)
qed

end
